theory Spec2Isabelle
  imports Complex_Main "HOL-Library.Word" "HOL-Library.AList" "HOL-Library.Multiset"
    "HOL-Library.Log_Nat"
begin

unbundle bit_operations_syntax

section \<open>Conventions of the embedding\<close>

text \<open>
  The TypeScript sources compute with the JavaScript \<^verbatim>\<open>number\<close> type, the IEEE 754
  double. Here a number is the \<^typ>\<open>real\<close> that a finite double stands for, and the
  comparisons of the source are those of the reals. Where the source adds, subtracts,
  multiplies or divides, the model rounds the exact result to the nearest double (section
  \<open>Double-precision arithmetic\<close>); this is done in the cutoff of the protected set, in the
  timeband processing and in the district disaggregation. The prime-time focus and the
  market consistency score are modelled with exact arithmetic. A JavaScript string is a
  sequence of 16-bit code units; a string literal of the source is written \<open>lit ''...''\<close>.
  An optional field (\<^verbatim>\<open>x?: number\<close>) is a \<^typ>\<open>real option\<close>, with \<open>None\<close> for
  \<^verbatim>\<open>undefined\<close>. A JavaScript \<^verbatim>\<open>Map\<close> is an association list in insertion order,
  written to with \<^const>\<open>AList.update\<close> and read with \<^const>\<open>map_of\<close>.
\<close>

type_synonym jsstring = "16 word list"

definition lit :: "string \<Rightarrow> jsstring" where
  "lit s = map (\<lambda>c. of_nat (of_char c)) s"

text \<open>\<^verbatim>\<open>x || 0\<close> on an optional number.\<close>

definition orZero :: "real option \<Rightarrow> real" where
  "orZero v = (case v of None \<Rightarrow> 0 | Some x \<Rightarrow> x)"

text \<open>\<^verbatim>\<open>Math.max(...xs, d)\<close>.\<close>

definition maxOf :: "real list \<Rightarrow> real \<Rightarrow> real" where
  "maxOf xs d = foldr max xs d"

subsection \<open>Number formatting\<close>

text \<open>The decimal digits of a natural number.\<close>

fun digits :: "nat \<Rightarrow> string" where
  "digits n = (if n < 10 then [''0123456789'' ! n] else digits (n div 10) @ [''0123456789'' ! (n mod 10)])"

declare digits.simps [simp del]

text \<open>
  \<^verbatim>\<open>Number.prototype.toFixed\<close>: the sign, then the integer nearest to \<open>\<bar>x\<bar> * 10 ^ f\<close>
  (the larger one on a tie) written with \<open>f\<close> decimals. From \<open>10 ^ 21\<close> on, JavaScript
  prints the number with its general number-to-string conversion, which is the parameter
  \<open>toStr\<close> of the model.
\<close>

definition toFixed :: "(real \<Rightarrow> jsstring) \<Rightarrow> real \<Rightarrow> nat \<Rightarrow> jsstring" where
  "toFixed toStr x f =
     (let s = (if x < 0 then ''-'' else ''''); y = \<bar>x\<bar> in
      if y \<ge> 10 ^ 21 then lit s @ toStr y
      else
        let n = nat \<lfloor>y * 10 ^ f + 1 / 2\<rfloor>;
            m = digits n;
            m' = (if f = 0 then m
                  else let z = replicate (f + 1 - length m) (CHR ''0'');
                           p = z @ m;
                           k = length p
                       in take (k - f) p @ ''.'' @ drop (k - f) p)
        in lit (s @ m'))"

text \<open>
  \<^verbatim>\<open>+(x).toFixed(f)\<close>: the number read back from the string, that is \<open>x\<close> rounded to
  \<open>f\<close> decimals, half away from zero.
\<close>

definition toFixedNum :: "real \<Rightarrow> nat \<Rightarrow> real" where
  "toFixedNum x f =
     (if x < 0 then - (real_of_int \<lfloor>- x * 10 ^ f + 1 / 2\<rfloor> / 10 ^ f)
      else real_of_int \<lfloor>x * 10 ^ f + 1 / 2\<rfloor> / 10 ^ f)"

text \<open>The numbers with at most two decimals, the values of \<^verbatim>\<open>+(x).toFixed(2)\<close>.\<close>

definition hundredth :: "real \<Rightarrow> bool" where
  "hundredth x \<longleftrightarrow> (\<exists>k::int. x = real_of_int k / 100)"

subsection \<open>Double-precision arithmetic\<close>

text \<open>
  Rounding to the nearest double, ties to the even significand. \<open>binade x\<close> is the
  exponent \<open>e\<close> with \<open>2 ^ e \<le> \<bar>x\<bar> < 2 ^ (e + 1)\<close>; the doubles of that binade are the
  multiples of \<open>2 ^ (e - 52)\<close>, and \<open>fl x\<close> is the nearest of them. The exponent is not
  bounded: the model covers the normal range of the doubles (magnitudes from \<open>2 ^ -1022\<close>
  to below \<open>2 ^ 1024\<close>, and 0), not overflow to infinity, subnormal numbers or NaN. A
  division by 0, which gives an infinity or NaN in JavaScript, is outside the model. The
  source tests the divisor before it divides, except for the mean over the districts of the
  region and for the total weight of the bands in \<^verbatim>\<open>calculateDistrictChannels\<close>; the
  theorem about the gap takes a region with at least one district and an urban share
  between 0 and 1, for which both divisors are positive.
\<close>

definition pow2 :: "int \<Rightarrow> real" where
  "pow2 k = (if 0 \<le> k then 2 ^ nat k else 1 / 2 ^ nat (- k))"

definition binade :: "real \<Rightarrow> int" where
  "binade x =
     (let a = \<bar>x\<bar> in
      if 1 \<le> a then int (floorlog 2 (nat \<lfloor>a\<rfloor>)) - 1
      else - int (floorlog 2 (nat (\<lceil>1 / a\<rceil> - 1))))"

definition roundEven :: "real \<Rightarrow> int" where
  "roundEven y =
     (let n = \<lfloor>y\<rfloor>; d = y - of_int n in
      if d < 1 / 2 then n else if 1 / 2 < d then n + 1 else if even n then n else n + 1)"

definition fl :: "real \<Rightarrow> real" where
  "fl x = (if x = 0 then 0
           else let u = pow2 (binade x - 52) in of_int (roundEven (x / u)) * u)"

text \<open>
  The four operations of the source on doubles. A decimal literal of the source that is
  not itself a double, such as \<^verbatim>\<open>0.15\<close>, is written \<open>fl 0.15\<close>.
\<close>

definition addD :: "real \<Rightarrow> real \<Rightarrow> real" where
  "addD x y = fl (x + y)"

definition subD :: "real \<Rightarrow> real \<Rightarrow> real" where
  "subD x y = fl (x - y)"

definition mulD :: "real \<Rightarrow> real \<Rightarrow> real" where
  "mulD x y = fl (x * y)"

definition divD :: "real \<Rightarrow> real \<Rightarrow> real" where
  "divD x y = fl (x / y)"

text \<open>
  \<^verbatim>\<open>+(x).toFixed(f)\<close> as a double: the decimal string of \<open>toFixedNum x f\<close> read back by
  the unary plus, which rounds it to the nearest double.
\<close>

definition toFixedD :: "real \<Rightarrow> nat \<Rightarrow> real" where
  "toFixedD x f = fl (toFixedNum x f)"

text \<open>The doubles nearest to a number with two decimals, the values of \<^verbatim>\<open>+(x).toFixed(2)\<close>.\<close>

definition hundredthD :: "real \<Rightarrow> bool" where
  "hundredthD x \<longleftrightarrow> (\<exists>h. hundredth h \<and> x = fl h)"

text \<open>
  A gap \<open>g\<close> equals \<open>a - m\<close> to the tolerance \<open>10\<^sup>-\<^sup>6\<close>, whether the difference is taken
  exactly or as the double subtraction.
\<close>

definition gapWithinTolerance :: "real \<Rightarrow> real \<Rightarrow> real \<Rightarrow> bool" where
  "gapWithinTolerance g a m \<longleftrightarrow> \<bar>g - (a - m)\<bar> < 1 / 10 ^ 6 \<and> \<bar>g - subD a m\<bar> < 1 / 10 ^ 6"

section \<open>Data model\<close>

text \<open>
  The interfaces \<^verbatim>\<open>TimebandMetrics\<close> and \<^verbatim>\<open>ChannelRecord\<close>. The optimization utilities
  and the shared types each declare \<^verbatim>\<open>ChannelRecord\<close>, with the same required fields and
  different optional competitor fields; the record has the optional fields of both, and so
  has the timeband record for the fields the functions write. The fields of a timeband that
  a channel has too carry the prefix \<open>tb_\<close>.
\<close>

record TimebandMetrics =
  timeband :: jsstring
  tb_brandAReach :: real
  tb_brandAShare :: real
  tb_brandAOTS :: real
  tb_brandDReach :: "real option"
  tb_luxReach :: "real option"
  tb_brandEReach :: "real option"
  tb_brandBReach :: "real option"
  tb_brandCReach :: "real option"
  tb_maxCompReach :: real
  tb_gap :: real
  tb_atcIndex :: "real option"
  isPrimetime :: bool
  daypartCategory :: jsstring

record ChannelRecord =
  channel :: jsstring
  genre :: jsstring
  brandAReach :: real
  maxCompReach :: real
  gap :: real
  channelShare :: real
  indexVsBaseline :: real
  indexVsCompetition :: real
  brandDReach :: "real option"
  luxReach :: "real option"
  brandEReach :: "real option"
  brandBReach :: "real option"
  brandCReach :: "real option"
  atcIndex :: "real option"
  optimizationType :: "jsstring option"
  timebands :: "TimebandMetrics list option"
  primetimeReach :: "real option"
  nonPrimetimeReach :: "real option"
  peakTimeband :: "jsstring option"
  opportunityTimeband :: "jsstring option"

datatype Recommendation = INCREASE | MAINTAIN | ADD | DECREASE

datatype Priority = HIGH | MEDIUM | LOW

record OptimizationResult =
  res_channel :: jsstring
  recommendation :: Recommendation
  priority :: Priority
  reason :: jsstring

section \<open>Status classifier\<close>

definition calculateStatus :: "ChannelRecord \<Rightarrow> jsstring" where
  "calculateStatus ch =
     (if brandAReach ch = 0 \<and> maxCompReach ch = 0 then lit ''INACTIVE''
      else if brandAReach ch = 0 \<and> maxCompReach ch \<ge> 2.0 \<and> channelShare ch \<ge> 1.0
        then lit ''OPPORTUNITY''
      else if brandAReach ch = 0 \<and> maxCompReach ch > 0 then lit ''INACTIVE''
      else if brandAReach ch > 0 \<and> maxCompReach ch = 0 then lit ''MONOPOLY''
      else if indexVsCompetition ch \<ge> 150 then lit ''DOMINANT''
      else if indexVsCompetition ch \<ge> 100 then lit ''LEADING''
      else if indexVsCompetition ch \<ge> 80 then lit ''CLOSE''
      else if indexVsCompetition ch \<ge> 50 then lit ''BEHIND''
      else lit ''CRITICAL'')"

text \<open>The keys of the table \<^verbatim>\<open>STATUS_STYLES\<close>: the eight status labels.\<close>

definition STATUS_STYLES_keys :: "jsstring list" where
  "STATUS_STYLES_keys =
     [lit ''DOMINANT'', lit ''LEADING'', lit ''CLOSE'', lit ''BEHIND'', lit ''CRITICAL'',
      lit ''OPPORTUNITY'', lit ''MONOPOLY'', lit ''INACTIVE'']"

text \<open>
  The ladder of the specification (section 4.1), written from its five numbered steps, on
  the four numbers it reads.
\<close>

definition classifyStatus_spec :: "real \<Rightarrow> real \<Rightarrow> real \<Rightarrow> real \<Rightarrow> jsstring" where
  "classifyStatus_spec reach maxComp share idx =
     (if reach = 0 \<and> maxComp = 0 then lit ''INACTIVE''
      else if reach = 0 \<and> maxComp \<ge> 2.0 \<and> share \<ge> 1.0 then lit ''OPPORTUNITY''
      else if reach = 0 \<and> maxComp > 0 then lit ''INACTIVE''
      else if reach > 0 \<and> maxComp = 0 then lit ''MONOPOLY''
      else if idx \<ge> 150 then lit ''DOMINANT''
      else if idx \<ge> 100 then lit ''LEADING''
      else if idx \<ge> 80 then lit ''CLOSE''
      else if idx \<ge> 50 then lit ''BEHIND''
      else lit ''CRITICAL'')"

section \<open>Channel optimizer\<close>

text \<open>
  \<^verbatim>\<open>xs.slice(0, e)\<close>: a negative end counts from the end of the array. The cutoff of
  \<^verbatim>\<open>getProtectedChannels\<close> is \<^verbatim>\<open>Math.ceil(sorted.length * (threshold / 100))\<close>, the
  quotient and the product each rounded to a double.
\<close>

definition slice0 :: "'a list \<Rightarrow> int \<Rightarrow> 'a list" where
  "slice0 xs e = (if e < 0 then take (nat (int (length xs) + e)) xs else take (nat e) xs)"

definition getProtectedChannels :: "ChannelRecord list \<Rightarrow> real \<Rightarrow> jsstring list" where
  "getProtectedChannels channels threshold =
     (let withBrandA = filter (\<lambda>ch. brandAReach ch > 0) channels;
          sorted = sort_key (\<lambda>ch. - brandAReach ch) withBrandA;
          cutoff = \<lceil>mulD (real (length sorted)) (divD threshold 100)\<rceil>
      in map channel (slice0 sorted cutoff))"

definition gapThreshold :: "real \<Rightarrow> real" where
  "gapThreshold intensity = (if intensity \<le> 10 then - 3 else if intensity \<le> 20 then - 2 else - 1)"

definition indexThreshold :: "real \<Rightarrow> real" where
  "indexThreshold intensity = (if intensity \<le> 10 then 70 else if intensity \<le> 20 then 80 else 90)"

text \<open>
  The body of the loop of \<^verbatim>\<open>runOptimization\<close> for one channel: the entry it sets, or
  \<open>None\<close> where the iteration ends without setting one.
\<close>

definition optimizeChannel ::
  "(real \<Rightarrow> jsstring) \<Rightarrow> jsstring list \<Rightarrow> real \<Rightarrow> real \<Rightarrow> ChannelRecord \<Rightarrow> OptimizationResult option"
where
  "optimizeChannel toStr protectedChannels intensity threshold ch =
     (if brandAReach ch = 0 \<and> maxCompReach ch = 0 then None
      else
        let isProtected = (channel ch \<in> set protectedChannels) in
        if brandAReach ch = 0 \<and> maxCompReach ch \<ge> 2.0 \<and> channelShare ch \<ge> 1.0 then
          Some \<lparr>res_channel = channel ch, recommendation = ADD,
                priority = (if maxCompReach ch > 5 then HIGH
                            else if maxCompReach ch > 3 then MEDIUM else LOW),
                reason = lit ''Competitor at '' @ toFixed toStr (maxCompReach ch) 1
                         @ lit ''%, Share '' @ toFixed toStr (channelShare ch) 1 @ lit ''%''\<rparr>
        else if brandAReach ch > 0 \<and> gap ch < gapThreshold intensity
                \<and> indexVsCompetition ch < indexThreshold intensity then
          Some \<lparr>res_channel = channel ch, recommendation = INCREASE,
                priority = (if gap ch < - 5 then HIGH else if gap ch < - 2 then MEDIUM else LOW),
                reason = lit ''Gap of '' @ toFixed toStr (gap ch) 1 @ lit '' pts, Index ''
                         @ toFixed toStr (indexVsCompetition ch) 0\<rparr>
        else if isProtected \<or> indexVsCompetition ch \<ge> 100 then
          Some \<lparr>res_channel = channel ch, recommendation = MAINTAIN, priority = LOW,
                reason = (if isProtected then lit ''Top '' @ toStr threshold @ lit ''% - protected''
                          else lit ''Leading competition'')\<rparr>
        else if \<not> isProtected \<and> brandAReach ch > 0 \<and> brandAReach ch < 1.5
                \<and> indexVsCompetition ch > 120 then
          Some \<lparr>res_channel = channel ch, recommendation = DECREASE, priority = LOW,
                reason = lit ''Low reach ('' @ toFixed toStr (brandAReach ch) 1
                         @ lit ''%), reallocate budget''\<rparr>
        else if brandAReach ch > 0 then
          Some \<lparr>res_channel = channel ch, recommendation = MAINTAIN, priority = LOW,
                reason = lit ''Stable performance''\<rparr>
        else None)"

text \<open>One iteration of the loop: \<^verbatim>\<open>results.set(ch.channel, ...)\<close>, or nothing.\<close>

definition optimizeStep ::
  "(real \<Rightarrow> jsstring) \<Rightarrow> jsstring list \<Rightarrow> real \<Rightarrow> real \<Rightarrow> ChannelRecord
    \<Rightarrow> (jsstring \<times> OptimizationResult) list \<Rightarrow> (jsstring \<times> OptimizationResult) list"
where
  "optimizeStep toStr protectedChannels intensity threshold ch results =
     (case optimizeChannel toStr protectedChannels intensity threshold ch of
        None \<Rightarrow> results
      | Some r \<Rightarrow> AList.update (channel ch) r results)"

definition runOptimization ::
  "(real \<Rightarrow> jsstring) \<Rightarrow> ChannelRecord list \<Rightarrow> real \<Rightarrow> real \<Rightarrow> (jsstring \<times> OptimizationResult) list"
where
  "runOptimization toStr channels intensity threshold =
     (let protectedChannels = getProtectedChannels channels threshold in
      fold (optimizeStep toStr protectedChannels intensity threshold) channels [])"

section \<open>Planner insights\<close>

text \<open>\<^verbatim>\<open>TIMEBAND_LABELS\<close>: the four daypart bands.\<close>

definition TIMEBAND_LABELS :: "jsstring list" where
  "TIMEBAND_LABELS = [lit ''NPT'', lit ''NCPT_EARLY'', lit ''CPT'', lit ''NCPT_LATE'']"

definition calculatePrimeTimeFocus :: "TimebandMetrics list \<Rightarrow> real" where
  "calculatePrimeTimeFocus tbs =
     (let totalReach = foldl (\<lambda>sum tb. sum + tb_brandAReach tb) 0 tbs in
      if totalReach = 0 then 0
      else
        let primeReach =
              foldl (\<lambda>sum tb. sum + tb_brandAReach tb) 0
                (filter (\<lambda>tb. timeband tb = lit ''NCPT_EARLY'' \<or> timeband tb = lit ''CPT''
                               \<or> timeband tb = lit ''NCPT_LATE'') tbs)
        in (primeReach / totalReach) * 100)"

section \<open>Cross-geography analysis\<close>

record Markets =
  UP :: real
  Maharashtra :: real
  Karnataka :: real

record CrossGeoTimebandComparison =
  cg_timeband :: jsstring
  markets :: Markets
  bestPerformingMarket :: jsstring
  worstPerformingMarket :: jsstring
  variance :: real

text \<open>
  A division whose divisor the code may find to be zero: \<open>None\<close> stands for the result
  that is not a finite number (\<^verbatim>\<open>NaN\<close>, \<^verbatim>\<open>Infinity\<close>).
\<close>

definition numDiv :: "real \<Rightarrow> real \<Rightarrow> real option" where
  "numDiv a b = (if b = 0 then None else Some (a / b))"

definition calculateMarketConsistencyScore :: "CrossGeoTimebandComparison \<Rightarrow> real option" where
  "calculateMarketConsistencyScore comparison =
     (let values = [UP (markets comparison), Maharashtra (markets comparison),
                    Karnataka (markets comparison)];
          avg = foldl (\<lambda>s v. s + v) 0 values / 3
      in if avg = 0 then Some 100
         else case numDiv (variance comparison) avg of
                None \<Rightarrow> None
              | Some cv \<Rightarrow> Some (max 0 (min 100 ((1 - cv) * 100))))"

section \<open>Timeband processing\<close>

subsection \<open>Normalizing a timeband string\<close>

definition isDigit :: "16 word \<Rightarrow> bool" where
  "isDigit c \<longleftrightarrow> 48 \<le> c \<and> c \<le> 57"

text \<open>The characters of the class \<^verbatim>\<open>\s\<close> of a JavaScript regular expression.\<close>

definition isSpace :: "16 word \<Rightarrow> bool" where
  "isSpace c \<longleftrightarrow>
     c \<in> set [9, 10, 11, 12, 13, 32, 160, 5760, 8232, 8233, 8239, 8287, 12288, 65279]
     \<or> (8192 \<le> c \<and> c \<le> 8202)"

text \<open>\<^verbatim>\<open>.replace(/:\d{2}:\d{2}/g, ':00')\<close>, scanning from the left.\<close>

fun replaceSeconds :: "jsstring \<Rightarrow> jsstring" where
  "replaceSeconds (a # b # c # d # e # f # rest) =
     (if a = 58 \<and> isDigit b \<and> isDigit c \<and> d = 58 \<and> isDigit e \<and> isDigit f
      then lit '':00'' @ replaceSeconds rest
      else a # replaceSeconds (b # c # d # e # f # rest))"
| "replaceSeconds s = s"

text \<open>
  \<^verbatim>\<open>.replace(/\s*-\s*/g, '-')\<close>: at a position the pattern matches when the run of
  spaces that starts there is followed by a dash; the match takes the spaces after the
  dash too.
\<close>

function replaceDash :: "jsstring \<Rightarrow> jsstring" where
  "replaceDash [] = []"
| "replaceDash (c # cs) =
     (case dropWhile isSpace (c # cs) of
        [] \<Rightarrow> c # replaceDash cs
      | d # ds \<Rightarrow> if d = 45 then 45 # replaceDash (dropWhile isSpace ds)
                 else c # replaceDash cs)"
  by pat_completeness auto
termination
proof (relation "measure length")
  show "wf (measure length)" by simp
next
  fix c :: "16 word" and cs
  show "(cs, c # cs) \<in> measure length" by simp
next
  fix c :: "16 word" and cs d ds
  assume d: "dropWhile isSpace (c # cs) = d # ds"
  have "length (dropWhile isSpace ds) \<le> length ds"
    by (rule length_dropWhile_le)
  moreover have "length (d # ds) \<le> length (c # cs)"
    unfolding d [symmetric] by (rule length_dropWhile_le)
  ultimately show "(dropWhile isSpace ds, c # cs) \<in> measure length" by simp
next
  fix c :: "16 word" and cs d ds
  show "(cs, c # cs) \<in> measure length" by simp
qed

text \<open>\<^verbatim>\<open>.replace(/:00/g, '')\<close>.\<close>

fun removeColon00 :: "jsstring \<Rightarrow> jsstring" where
  "removeColon00 (a # b # c # rest) =
     (if a = 58 \<and> b = 48 \<and> c = 48 then removeColon00 rest
      else a # removeColon00 (b # c # rest))"
| "removeColon00 s = s"

definition normalizeTimebandString :: "jsstring \<Rightarrow> jsstring" where
  "normalizeTimebandString tb = removeColon00 (replaceDash (replaceSeconds tb))"

subsection \<open>Tables of the four bands\<close>

text \<open>
  \<^verbatim>\<open>DAYPART_CATEGORIES_V2\<close>, the fields \<^verbatim>\<open>isPrime\<close> and \<^verbatim>\<open>category\<close> that the functions
  read, and \<^verbatim>\<open>ATC_DAYPART_FACTORS_V2\<close>.
\<close>

definition daypartIsPrime :: "jsstring \<Rightarrow> bool" where
  "daypartIsPrime tb = (tb \<noteq> lit ''NPT'')"

definition daypartCategoryOf :: "jsstring \<Rightarrow> jsstring" where
  "daypartCategoryOf tb =
     (if tb = lit ''NPT'' then lit ''non-prime''
      else if tb = lit ''CPT'' then lit ''core-prime''
      else lit ''non-core-prime'')"

definition ATC_DAYPART_FACTORS_V2 :: "(jsstring \<times> real) list" where
  "ATC_DAYPART_FACTORS_V2 =
     [(lit ''NPT'', fl 0.7), (lit ''NCPT_EARLY'', fl 1.2), (lit ''CPT'', 1.5),
      (lit ''NCPT_LATE'', fl 1.1)]"

definition calculateTimebandATCIndex :: "real \<Rightarrow> jsstring \<Rightarrow> real" where
  "calculateTimebandATCIndex r tb =
     (let factor = (case map_of ATC_DAYPART_FACTORS_V2 tb of None \<Rightarrow> 1.0 | Some f \<Rightarrow> f)
      in mulD (mulD r factor) 100)"

definition createEmptyTimeband :: "jsstring \<Rightarrow> jsstring \<Rightarrow> TimebandMetrics" where
  "createEmptyTimeband tb market =
     \<lparr>timeband = tb, tb_brandAReach = 0, tb_brandAShare = 0, tb_brandAOTS = 0,
      tb_brandDReach = (if market = lit ''Karnataka'' then None else Some 0),
      tb_luxReach = None,
      tb_brandEReach = (if market = lit ''Karnataka'' then None else Some 0),
      tb_brandBReach = (if market = lit ''Karnataka'' then Some 0 else None),
      tb_brandCReach = (if market = lit ''Karnataka'' then Some 0 else None),
      tb_maxCompReach = 0, tb_gap = 0,
      tb_atcIndex = (if market = lit ''Karnataka'' then Some 0 else None),
      isPrimetime = daypartIsPrime tb, daypartCategory = daypartCategoryOf tb\<rparr>"

subsection \<open>Parsing the raw rows\<close>

datatype RawValue = NA | Null | Num real

text \<open>
  A raw row. A field that is missing is \<open>None\<close>. \<open>NA\<close> is the string \<^verbatim>\<open>'n.a'\<close>, \<open>Num x\<close>
  a value that \<^verbatim>\<open>Number\<close> reads as \<open>x\<close>.
\<close>

record RawRow =
  Channel :: "jsstring option"
  TimeBand :: "jsstring option"
  Value :: RawValue
  Metric :: "jsstring option"
  Target_Group :: "jsstring option"

record TimebandData =
  td_reach :: "real list"
  td_share :: "real list"
  td_ots :: "real list"
  td_competitors :: "(jsstring \<times> real list) list"

datatype error = TypeError

text \<open>\<^verbatim>\<open>!s\<close> on an optional string: missing or empty.\<close>

definition falsy :: "jsstring option \<Rightarrow> bool" where
  "falsy s = (case s of None \<Rightarrow> True | Some x \<Rightarrow> x = [])"

text \<open>The property key of a value used as an index: a missing one reads \<^verbatim>\<open>"undefined"\<close>.\<close>

definition propertyKey :: "jsstring option \<Rightarrow> jsstring" where
  "propertyKey s = (case s of None \<Rightarrow> lit ''undefined'' | Some x \<Rightarrow> x)"

text \<open>
  The properties that the object literal \<^verbatim>\<open>{}\<close> inherits from \<^verbatim>\<open>Object.prototype\<close>. Read
  under such a key, \<^verbatim>\<open>data.competitors[key]\<close> is not falsy and has no \<^verbatim>\<open>push\<close>: the call
  raises a \<^verbatim>\<open>TypeError\<close>.
\<close>

definition OBJECT_PROTOTYPE_KEYS :: "jsstring list" where
  "OBJECT_PROTOTYPE_KEYS =
     [lit ''constructor'', lit ''__defineGetter__'', lit ''__defineSetter__'',
      lit ''hasOwnProperty'', lit ''__lookupGetter__'', lit ''__lookupSetter__'',
      lit ''isPrototypeOf'', lit ''propertyIsEnumerable'', lit ''toString'', lit ''valueOf'',
      lit ''__proto__'', lit ''toLocaleString'']"

definition emptyData :: TimebandData where
  "emptyData = \<lparr>td_reach = [], td_share = [], td_ots = [], td_competitors = []\<rparr>"

definition numberOf :: "RawValue \<Rightarrow> real" where
  "numberOf v = (case v of NA \<Rightarrow> 0 | Null \<Rightarrow> 0 | Num x \<Rightarrow> x)"

text \<open>The aggregation of one row into the data of its channel and timeband.\<close>

definition aggregate :: "RawRow \<Rightarrow> TimebandData \<Rightarrow> error + TimebandData" where
  "aggregate row data =
     (let v = numberOf (Value row) in
      if Metric row = Some (lit ''Cume Rch% Curve [1+]'') then
        (if Target_Group row = Some (lit ''Brand A'')
         then Inr (data\<lparr>td_reach := td_reach data @ [v]\<rparr>)
         else
           let key = propertyKey (Target_Group row) in
           case map_of (td_competitors data) key of
             Some vals \<Rightarrow>
               Inr (data\<lparr>td_competitors := AList.update key (vals @ [v]) (td_competitors data)\<rparr>)
           | None \<Rightarrow>
               if key \<in> set OBJECT_PROTOTYPE_KEYS then Inl TypeError
               else Inr (data\<lparr>td_competitors := AList.update key [v] (td_competitors data)\<rparr>))
      else if Metric row = Some (lit ''rat%'') then Inr (data\<lparr>td_share := td_share data @ [v]\<rparr>)
      else if Metric row = Some (lit ''Ots'') then Inr (data\<lparr>td_ots := td_ots data @ [v]\<rparr>)
      else Inr data)"

type_synonym channelTimebandMap = "(jsstring \<times> (jsstring \<times> TimebandData) list) list"

definition addRow :: "RawRow \<Rightarrow> channelTimebandMap \<Rightarrow> error + channelTimebandMap" where
  "addRow row m =
     (if falsy (Channel row) \<or> falsy (TimeBand row) then Inr m
      else
        let ch = the (Channel row);
            tb = normalizeTimebandString (the (TimeBand row));
            timebandData = (case map_of m ch of None \<Rightarrow> [] | Some t \<Rightarrow> t);
            data = (case map_of timebandData tb of None \<Rightarrow> emptyData | Some x \<Rightarrow> x)
        in case aggregate row data of
             Inl e \<Rightarrow> Inl e
           | Inr data' \<Rightarrow> Inr (AList.update ch (AList.update tb data' timebandData) m))"

fun groupRows :: "RawRow list \<Rightarrow> channelTimebandMap \<Rightarrow> error + channelTimebandMap" where
  "groupRows [] m = Inr m"
| "groupRows (row # rows) m =
     (case addRow row m of Inl e \<Rightarrow> Inl e | Inr m' \<Rightarrow> groupRows rows m')"

text \<open>The mean of the values pushed for a metric, 0 when there is none.\<close>

definition average :: "real list \<Rightarrow> real" where
  "average xs = (if length xs > 0 then divD (foldl (\<lambda>a b. addD a b) 0 xs) (real (length xs)) else 0)"

definition timebandMetricsOf :: "jsstring \<Rightarrow> jsstring \<Rightarrow> TimebandData \<Rightarrow> TimebandMetrics" where
  "timebandMetricsOf tb market data =
     (let brandAReach' = average (td_reach data);
          brandAShare' = average (td_share data);
          brandAOTS' = average (td_ots data);
          competitorReaches = map (\<lambda>(c, vals). (c, average vals)) (td_competitors data);
          maxCompReach' = maxOf (map snd competitorReaches) 0;
          gap' = subD brandAReach' maxCompReach'
      in \<lparr>timeband = tb, tb_brandAReach = brandAReach', tb_brandAShare = brandAShare',
          tb_brandAOTS = brandAOTS',
          tb_brandDReach = (if market = lit ''Karnataka'' then None
                            else Some (orZero (map_of competitorReaches (lit ''Brand D'')))),
          tb_luxReach = None,
          tb_brandEReach = (if market = lit ''Karnataka'' then None
                            else Some (orZero (map_of competitorReaches (lit ''Brand E'')))),
          tb_brandBReach = (if market = lit ''Karnataka''
                            then Some (orZero (map_of competitorReaches (lit ''Brand B''))) else None),
          tb_brandCReach = (if market = lit ''Karnataka''
                            then Some (orZero (map_of competitorReaches (lit ''Brand C''))) else None),
          tb_maxCompReach = maxCompReach', tb_gap = gap',
          tb_atcIndex = (if market = lit ''Karnataka''
                         then Some (calculateTimebandATCIndex brandAReach' tb) else None),
          isPrimetime = daypartIsPrime tb, daypartCategory = daypartCategoryOf tb\<rparr>)"

definition parseTimebandData ::
  "RawRow list \<Rightarrow> jsstring \<Rightarrow> error + (jsstring \<times> TimebandMetrics list) list" where
  "parseTimebandData rawData market =
     (case groupRows rawData [] of
        Inl e \<Rightarrow> Inl e
      | Inr channelTimebandMap \<Rightarrow>
          Inr (map (\<lambda>(ch, timebandData).
                      (ch, map (\<lambda>tb. case map_of timebandData tb of
                                         None \<Rightarrow> createEmptyTimeband tb market
                                       | Some data \<Rightarrow> timebandMetricsOf tb market data)
                               TIMEBAND_LABELS))
                   channelTimebandMap))"

subsection \<open>Sample timebands\<close>

definition getChannelDistribution :: "ChannelRecord \<Rightarrow> (jsstring \<times> real) list \<times> (jsstring \<times> real) list"
where
  "getChannelDistribution ch =
     (let genreVariation = divD (real (length (channel ch) mod 10)) 100;
          dist = (\<lambda>n e c l n' e' c' l'.
                   ([(lit ''NPT'', addD (fl n) genreVariation), (lit ''NCPT_EARLY'', fl e),
                     (lit ''CPT'', subD (fl c) genreVariation), (lit ''NCPT_LATE'', fl l)],
                    [(lit ''NPT'', fl n'), (lit ''NCPT_EARLY'', fl e'), (lit ''CPT'', fl c'),
                     (lit ''NCPT_LATE'', fl l')]))
      in if gap ch < - 8 then dist 0.18 0.07 0.60 0.15 0.20 0.09 0.58 0.13
         else if gap ch < - 5 then dist 0.22 0.09 0.54 0.15 0.24 0.10 0.53 0.13
         else if gap ch < - 2 then dist 0.28 0.11 0.46 0.15 0.27 0.12 0.48 0.13
         else if gap ch < 2 then dist 0.33 0.12 0.40 0.15 0.32 0.12 0.43 0.13
         else if gap ch < 5 then dist 0.40 0.14 0.32 0.14 0.36 0.12 0.40 0.12
         else if gap ch < 8 then dist 0.48 0.16 0.24 0.12 0.40 0.13 0.36 0.11
         else dist 0.55 0.18 0.15 0.12 0.44 0.14 0.32 0.10)"

text \<open>\<^verbatim>\<open>x ? x * m : 0\<close> on an optional number.\<close>

definition scaledOrZero :: "real option \<Rightarrow> real \<Rightarrow> real" where
  "scaledOrZero v m = (case v of None \<Rightarrow> 0 | Some x \<Rightarrow> if x \<noteq> 0 then mulD x m else 0)"

definition sampleTimeband :: "ChannelRecord \<Rightarrow> jsstring \<Rightarrow> jsstring \<Rightarrow> TimebandMetrics" where
  "sampleTimeband ch market tb =
     (let distribution = getChannelDistribution ch;
          reachMultiplier = the (map_of (fst distribution) tb);
          brandAReach' = mulD (brandAReach ch) reachMultiplier;
          compReachMultiplier = the (map_of (snd distribution) tb);
          maxCompReach' = mulD (maxCompReach ch) compReachMultiplier;
          gap' = subD brandAReach' maxCompReach'
      in \<lparr>timeband = tb, tb_brandAReach = brandAReach',
          tb_brandAShare = mulD (channelShare ch) reachMultiplier,
          tb_brandAOTS = mulD brandAReach' 0.5,
          tb_brandDReach = (if market = lit ''Karnataka'' then None
                            else Some (scaledOrZero (brandDReach ch) compReachMultiplier)),
          tb_luxReach = None,
          tb_brandEReach = (if market = lit ''Karnataka'' then None
                            else Some (scaledOrZero (brandEReach ch) compReachMultiplier)),
          tb_brandBReach = (if market = lit ''Karnataka''
                            then Some (scaledOrZero (brandBReach ch) compReachMultiplier) else None),
          tb_brandCReach = (if market = lit ''Karnataka''
                            then Some (scaledOrZero (brandCReach ch) compReachMultiplier) else None),
          tb_maxCompReach = maxCompReach', tb_gap = gap',
          tb_atcIndex = (if market = lit ''Karnataka''
                         then Some (calculateTimebandATCIndex brandAReach' tb) else None),
          isPrimetime = daypartIsPrime tb, daypartCategory = daypartCategoryOf tb\<rparr>)"

definition generateSampleTimebandData :: "ChannelRecord \<Rightarrow> jsstring \<Rightarrow> TimebandMetrics list" where
  "generateSampleTimebandData ch market = map (sampleTimeband ch market) TIMEBAND_LABELS"

section \<open>District disaggregation\<close>

record DistrictRecord =
  ser :: jsstring
  scrKey :: jsstring
  district :: jsstring
  syncPop :: real
  censusPop :: real
  urbanPct :: real
  literacyPct :: real
  tvOwnershipPct :: real
  mobilePct :: real
  electrificationPct :: real
  internetPct :: real
  cdmiScore :: real
  allocPctInSer :: real
  reachOverall :: real
  reachUrban :: real
  reachRural :: real
  targetPop :: real
  reachedPop :: real
  confidence :: jsstring

definition GENRE_CATEGORY :: "(jsstring \<times> jsstring) list" where
  "GENRE_CATEGORY =
     [(lit ''News'', lit ''News''), (lit ''Hindi News'', lit ''News''),
      (lit ''English News'', lit ''English''), (lit ''Business News'', lit ''English''),
      (lit ''English Entertainment'', lit ''English''), (lit ''English Movies'', lit ''English''),
      (lit ''Devotional'', lit ''Devotional''), (lit ''Bhojpuri'', lit ''Regional''),
      (lit ''Punjabi'', lit ''Regional''), (lit ''Regional'', lit ''Regional''),
      (lit ''Kids'', lit ''Kids''), (lit ''Hindi Movies'', lit ''Movies''),
      (lit ''Movies'', lit ''Movies''), (lit ''Hindi GEC'', lit ''GEC''),
      (lit ''GEC'', lit ''GEC''), (lit ''Entertainment'', lit ''GEC''),
      (lit ''Comedy'', lit ''GEC''), (lit ''Music'', lit ''Music''),
      (lit ''Sports'', lit ''Sports''), (lit ''Infotainment'', lit ''Infotainment''),
      (lit ''Lifestyle'', lit ''Infotainment''), (lit ''Reality'', lit ''GEC'')]"

subsection \<open>The string hash\<close>

text \<open>
  One round of the loop of \<^verbatim>\<open>simpleHash\<close>: \<^verbatim>\<open>hash = ((hash << 5) - hash) + char\<close>, then
  \<^verbatim>\<open>hash = hash & hash\<close>, which brings the sum back to a signed 32-bit integer. The sum is
  exact in a JavaScript number, so the round is the same sum modulo \<open>2 ^ 32\<close>.
\<close>

definition hashStep :: "32 word \<Rightarrow> 16 word \<Rightarrow> 32 word" where
  "hashStep hash c = (push_bit 5 hash - hash) + ucast c"

definition simpleHash :: "jsstring \<Rightarrow> int" where
  "simpleHash str = \<bar>sint (foldl hashStep 0 str)\<bar>"

subsection \<open>The layers\<close>

definition getBaseCdmiFactor :: "DistrictRecord \<Rightarrow> DistrictRecord list \<Rightarrow> real" where
  "getBaseCdmiFactor d serDistricts =
     (let serAvgCdmi = divD (foldl (\<lambda>sum x. addD sum (cdmiScore x)) 0 serDistricts)
                         (real (length serDistricts));
          baseFactor = addD 1 (mulD (subD (cdmiScore d) serAvgCdmi) (fl 0.6))
      in max 0.5 (min 1.5 baseFactor))"

definition getGenreAffinity :: "jsstring \<Rightarrow> real \<Rightarrow> real \<Rightarrow> real" where
  "getGenreAffinity g urban literacy =
     (let category = (case map_of GENRE_CATEGORY g of None \<Rightarrow> lit ''GEC'' | Some c \<Rightarrow> c);
          affinity =
            (if category = lit ''News'' then addD 1 (mulD (subD urban (fl 0.15)) (fl 0.65))
             else if category = lit ''English'' then addD 1 (mulD (subD urban (fl 0.15)) (fl 0.75))
             else if category = lit ''Devotional'' then addD 1 (mulD (subD (fl 0.15) urban) (fl 0.50))
             else if category = lit ''Regional'' then addD 1 (mulD (subD (fl 0.15) urban) (fl 0.40))
             else if category = lit ''Kids''
               then addD (addD 1 (mulD (subD urban (fl 0.15)) (fl 0.35)))
                         (mulD (subD literacy (fl 0.60)) (fl 0.15))
             else if category = lit ''Movies'' then addD 1 (mulD (subD urban (fl 0.15)) (fl 0.30))
             else if category = lit ''Music'' then addD 1 (mulD (subD urban (fl 0.15)) (fl 0.30))
             else if category = lit ''Sports'' then addD 1 (mulD (subD urban (fl 0.15)) (fl 0.40))
             else if category = lit ''Infotainment'' then addD 1 (mulD (subD urban (fl 0.15)) (fl 0.45))
             else if urban < fl 0.20 then addD 1 (mulD (subD (fl 0.20) urban) (fl 0.70))
             else 1.0)
      in max 0.75 (min (fl 1.35) affinity))"

definition getChannelJitter :: "jsstring \<Rightarrow> jsstring \<Rightarrow> real \<Rightarrow> real \<Rightarrow> jsstring \<Rightarrow> real" where
  "getChannelJitter districtName channelName share maxShareInSer suffix =
     (let sizeStability = (if maxShareInSer > 0 then divD share maxShareInSer else 0);
          varianceRange = mulD (subD 1 sizeStability) (fl 0.08);
          seed = simpleHash (districtName @ lit ''_'' @ channelName @ suffix) mod 10000;
          jitter = mulD (mulD (subD (divD (real_of_int seed) 10000) 0.5) 2) varianceRange
      in jitter)"

definition getTimebandUrbanShift :: "jsstring \<Rightarrow> real \<Rightarrow> real" where
  "getTimebandUrbanShift tb urban =
     (let urbanShift = mulD (subD urban (fl 0.15)) (fl 0.15) in
      if tb = lit ''NPT'' then subD 1 (mulD urbanShift (fl 0.4))
      else if tb = lit ''NCPT_EARLY'' then addD 1 (mulD urbanShift (fl 0.1))
      else if tb = lit ''CPT'' then 1.0
      else if tb = lit ''NCPT_LATE'' then addD 1 (mulD urbanShift 0.5)
      else 1.0)"

definition presenceScore :: "real \<Rightarrow> real \<Rightarrow> real \<Rightarrow> real \<Rightarrow> DistrictRecord \<Rightarrow> real" where
  "presenceScore reach maxReachInSer share maxShareInSer d =
     (let reachStrength = (if maxReachInSer > 0 then divD reach maxReachInSer else 0);
          shareStrength = (if maxShareInSer > 0 then divD share maxShareInSer else 0);
          channelStrength = addD (mulD reachStrength (fl 0.7)) (mulD shareStrength (fl 0.3));
          districtAccess =
            addD (addD (addD (mulD (urbanPct d) (fl 0.35)) (mulD (tvOwnershipPct d) (fl 0.30)))
                       (mulD (electrificationPct d) (fl 0.20)))
                 (mulD (internetPct d) (fl 0.15))
      in addD (mulD channelStrength (fl 0.55)) (mulD districtAccess (fl 0.45)))"

definition presenceThreshold :: "jsstring \<Rightarrow> jsstring \<Rightarrow> real" where
  "presenceThreshold districtName channelName =
     (let seed = simpleHash (lit ''presence_'' @ districtName @ lit ''_'' @ channelName) mod 10000;
          hashVariation = mulD (subD (divD (real_of_int seed) 10000) 0.5) (fl 0.08)
      in addD (fl 0.18) hashVariation)"

definition getChannelPresence ::
  "jsstring \<Rightarrow> jsstring \<Rightarrow> real \<Rightarrow> real \<Rightarrow> real \<Rightarrow> real \<Rightarrow> DistrictRecord \<Rightarrow> bool" where
  "getChannelPresence districtName channelName reach maxReachInSer share maxShareInSer d =
     (if reach \<le> 0 then False
      else presenceScore reach maxReachInSer share maxShareInSer d
             \<ge> presenceThreshold districtName channelName)"

subsection \<open>Scaling the channels of a region to a district\<close>

definition clampFactor :: "real \<Rightarrow> real" where
  "clampFactor x = max (fl 0.4) (min (fl 1.8) x)"

definition absentTimeband :: "TimebandMetrics \<Rightarrow> TimebandMetrics" where
  "absentTimeband tb =
     tb\<lparr>tb_brandAReach := 0, tb_brandAShare := 0, tb_brandAOTS := 0,
        tb_brandDReach := Some 0, tb_luxReach := Some 0, tb_maxCompReach := 0, tb_gap := 0\<rparr>"

definition absentChannel :: "ChannelRecord \<Rightarrow> ChannelRecord" where
  "absentChannel ch =
     ch\<lparr>brandAReach := 0, brandDReach := Some 0, luxReach := Some 0, maxCompReach := 0,
        gap := 0, indexVsCompetition := 0, indexVsBaseline := indexVsBaseline ch,
        timebands := map_option (map absentTimeband) (timebands ch)\<rparr>"

definition scaleTimeband ::
  "real \<Rightarrow> real \<Rightarrow> real \<Rightarrow> real \<Rightarrow> nat \<Rightarrow> real \<Rightarrow> TimebandMetrics \<Rightarrow> TimebandMetrics" where
  "scaleTimeband finalFactor compFactor1 compFactor2 totalWeight n urban tb =
     (let weight = getTimebandUrbanShift (timeband tb) urban;
          normalizedAdjust = mulD (divD weight totalWeight) (real n);
          tbBrandA = toFixedD (mulD (mulD (tb_brandAReach tb) finalFactor) normalizedAdjust) 2;
          tbComp = toFixedD (mulD (mulD (tb_maxCompReach tb) compFactor1) normalizedAdjust) 2;
          tbBrandD = map_option (\<lambda>v. toFixedD (mulD (mulD v compFactor1) normalizedAdjust) 2)
                       (tb_brandDReach tb);
          tbLux = map_option (\<lambda>v. toFixedD (mulD (mulD v compFactor2) normalizedAdjust) 2)
                    (tb_luxReach tb)
      in tb\<lparr>tb_brandAReach := tbBrandA,
            tb_brandAShare := toFixedD (mulD (tb_brandAShare tb) finalFactor) 2,
            tb_brandAOTS := toFixedD (mulD (tb_brandAOTS tb) finalFactor) 2,
            tb_brandDReach := tbBrandD,
            tb_luxReach := tbLux,
            tb_maxCompReach := max (max (orZero tbBrandD) (orZero tbLux)) tbComp,
            tb_gap := toFixedD (subD tbBrandA (max (max (orZero tbBrandD) (orZero tbLux)) tbComp))
                        2\<rparr>)"

definition scaleChannel ::
  "real \<Rightarrow> real \<Rightarrow> DistrictRecord \<Rightarrow> ChannelRecord \<Rightarrow> ChannelRecord" where
  "scaleChannel baseFactor maxShareInSer d ch =
     (let genreAffinity = getGenreAffinity (genre ch) (urbanPct d) (literacyPct d);
          jitter = getChannelJitter (district d) (channel ch) (channelShare ch) maxShareInSer [];
          finalFactor = clampFactor (mulD (mulD baseFactor genreAffinity) (addD 1 jitter));
          compJitter1 = getChannelJitter (district d) (channel ch) (channelShare ch) maxShareInSer
                          (lit ''_comp1'');
          compJitter2 = getChannelJitter (district d) (channel ch) (channelShare ch) maxShareInSer
                          (lit ''_comp2'');
          compFactor1 = clampFactor (mulD (mulD baseFactor genreAffinity) (addD 1 compJitter1));
          compFactor2 = clampFactor (mulD (mulD baseFactor genreAffinity) (addD 1 compJitter2));
          brandAReach' = toFixedD (mulD (brandAReach ch) finalFactor) 2;
          brandDReach' = map_option (\<lambda>v. toFixedD (mulD v compFactor1) 2) (brandDReach ch);
          luxReach' = map_option (\<lambda>v. toFixedD (mulD v compFactor2) 2) (luxReach ch);
          maxCompReach' = max (orZero brandDReach') (orZero luxReach');
          gap' = toFixedD (subD brandAReach' maxCompReach') 2;
          indexVsCompetition' =
            (if maxCompReach' > 0 then toFixedD (mulD (divD brandAReach' maxCompReach') 100) 1
             else if brandAReach' > 0 then 999 else 0);
          indexVsBaseline' = indexVsBaseline ch;
          timebands' =
            (case timebands ch of
               None \<Rightarrow> None
             | Some tbs \<Rightarrow>
                 let totalWeight =
                       foldl (\<lambda>s tb. addD s (getTimebandUrbanShift (timeband tb) (urbanPct d))) 0 tbs
                 in Some (map (scaleTimeband finalFactor compFactor1 compFactor2 totalWeight
                                 (length tbs) (urbanPct d)) tbs))
      in ch\<lparr>brandAReach := brandAReach', brandDReach := brandDReach', luxReach := luxReach',
            maxCompReach := maxCompReach', gap := gap',
            indexVsCompetition := indexVsCompetition', indexVsBaseline := indexVsBaseline',
            timebands := timebands'\<rparr>)"

definition calculateDistrictChannels ::
  "ChannelRecord list \<Rightarrow> DistrictRecord \<Rightarrow> DistrictRecord list \<Rightarrow> ChannelRecord list" where
  "calculateDistrictChannels serChannels d serDistricts =
     (let baseFactor = getBaseCdmiFactor d serDistricts;
          maxShareInSer = maxOf (map channelShare serChannels) (fl 0.01);
          maxReachInSer = maxOf (map brandAReach serChannels) (fl 0.01)
      in map (\<lambda>ch.
                let isPresent = getChannelPresence (district d) (channel ch) (brandAReach ch)
                                  maxReachInSer (channelShare ch) maxShareInSer d
                in if \<not> isPresent then absentChannel ch
                   else scaleChannel baseFactor maxShareInSer d ch)
             serChannels)"

section \<open>Example data\<close>

text \<open>Concrete records and a number printer for whole numbers, used to run the model.\<close>

definition exampleChannel :: "string \<Rightarrow> real \<Rightarrow> real \<Rightarrow> real \<Rightarrow> real \<Rightarrow> ChannelRecord" where
  "exampleChannel name reach maxComp share idx =
     \<lparr>channel = lit name, genre = lit ''GEC'', brandAReach = reach, maxCompReach = maxComp,
      gap = reach - maxComp, channelShare = share, indexVsBaseline = 100,
      indexVsCompetition = idx, brandDReach = None, luxReach = None, brandEReach = None,
      brandBReach = None, brandCReach = None, atcIndex = None, optimizationType = None,
      timebands = None, primetimeReach = None, nonPrimetimeReach = None, peakTimeband = None,
      opportunityTimeband = None\<rparr>"

definition exampleToStr :: "real \<Rightarrow> jsstring" where
  "exampleToStr x = lit (digits (nat \<lfloor>x\<rfloor>))"

definition exampleChannels :: "ChannelRecord list" where
  "exampleChannels =
     [exampleChannel ''P'' 9 2 1 450, exampleChannel ''Q'' 8 2 1 400,
      exampleChannel ''R'' 7 2 1 350, (exampleChannel ''S'' 5.0 11.0 1 60)\<lparr>gap := - 6.0\<rparr>]"

text \<open>A hundred channels \<open>C0\<close>, ..., \<open>C99\<close> with the reaches 100, ..., 1.\<close>

definition hundredChannels :: "ChannelRecord list" where
  "hundredChannels =
     map (\<lambda>i. exampleChannel (''C'' @ digits i) (real (100 - i)) 2 1 200) [0..<100]"

definition exampleTimeband :: "string \<Rightarrow> real \<Rightarrow> real \<Rightarrow> TimebandMetrics" where
  "exampleTimeband label reach maxComp =
     \<lparr>timeband = lit label, tb_brandAReach = reach, tb_brandAShare = 1, tb_brandAOTS = 2,
      tb_brandDReach = None, tb_luxReach = None, tb_brandEReach = None, tb_brandBReach = None,
      tb_brandCReach = None, tb_maxCompReach = maxComp, tb_gap = reach - maxComp,
      tb_atcIndex = None, isPrimetime = (label \<noteq> ''NPT''),
      daypartCategory = lit ''core-prime''\<rparr>"

definition exampleDistrict :: DistrictRecord where
  "exampleDistrict =
     \<lparr>ser = lit ''Awadh'', scrKey = lit ''Awadh'', district = lit ''Shravasti'',
      syncPop = 1000, censusPop = 1200, urbanPct = fl 0.05, literacyPct = fl 0.4,
      tvOwnershipPct = fl 0.2, mobilePct = 0.5, electrificationPct = fl 0.3,
      internetPct = fl 0.05, cdmiScore = fl 0.3, allocPctInSer = fl 0.1, reachOverall = 10,
      reachUrban = 12,
      reachRural = 9, targetPop = 500, reachedPop = 50, confidence = lit ''Low''\<rparr>"

definition exampleSerChannels :: "ChannelRecord list" where
  "exampleSerChannels =
     [(exampleChannel ''Big'' 10 4 5 250)\<lparr>brandDReach := Some 4, luxReach := Some 3\<rparr>,
      (exampleChannel ''Tiny'' 0.5 2 (fl 0.2) 25)\<lparr>brandDReach := Some 2, luxReach := Some 1\<rparr>,
      (exampleChannel ''Gone'' 0 5 2 0)\<lparr>brandDReach := Some 3, brandEReach := Some 5\<rparr>]"

definition exampleBands :: "TimebandMetrics list" where
  "exampleBands =
     map (\<lambda>(label, r). (exampleTimeband label r 5)
            \<lparr>tb_brandDReach := Some 1, tb_brandEReach := Some 5\<rparr>)
       [(''NPT'', 4), (''NCPT_EARLY'', 2), (''CPT'', 8), (''NCPT_LATE'', 3)]"

definition exampleRegionChannel :: ChannelRecord where
  "exampleRegionChannel =
     (exampleChannel ''Big'' 10 5 5 200)
       \<lparr>brandDReach := Some 1, brandEReach := Some 5, timebands := Some exampleBands\<rparr>"

definition exampleKarnatakaChannel :: ChannelRecord where
  "exampleKarnatakaChannel =
     (exampleChannel ''Udaya'' 6 3 2 200)\<lparr>brandBReach := Some 2, brandCReach := Some 3\<rparr>"

definition exampleRow :: "string \<Rightarrow> string \<Rightarrow> string \<Rightarrow> RawValue \<Rightarrow> RawRow" where
  "exampleRow tb metric target v =
     \<lparr>Channel = Some (lit ''Big''), TimeBand = Some (lit tb), Value = v,
      Metric = Some (lit metric), Target_Group = Some (lit target)\<rparr>"

definition exampleRows :: "RawRow list" where
  "exampleRows =
     [exampleRow ''NPT'' ''Cume Rch% Curve [1+]'' ''Brand A'' (Num 4),
      exampleRow ''NPT'' ''Cume Rch% Curve [1+]'' ''Brand A'' (Num 6),
      exampleRow ''NPT'' ''Cume Rch% Curve [1+]'' ''Brand D'' (Num 2),
      exampleRow ''NPT'' ''Cume Rch% Curve [1+]'' ''Brand E'' (Num 3),
      exampleRow ''NPT'' ''Cume Rch% Curve [1+]'' ''Brand E'' (Num 5),
      exampleRow ''NPT'' ''rat%'' ''Brand A'' (Num 1),
      exampleRow ''NPT'' ''Ots'' ''Brand A'' NA,
      exampleRow ''19:00:00 - 22:00:00'' ''Cume Rch% Curve [1+]'' ''Brand A'' (Num 9)]"

definition exampleDistrictChannel :: ChannelRecord where
  "exampleDistrictChannel =
     hd (calculateDistrictChannels [exampleRegionChannel] exampleDistrict [exampleDistrict])"

definition exampleDistrictBand :: TimebandMetrics where
  "exampleDistrictBand = hd (the (timebands exampleDistrictChannel))"

section \<open>Properties\<close>

subsection \<open>Rounding to a double\<close>

lemmas fl_eval = fl_def binade_def roundEven_def pow2_def Let_def compute_floorlog

lemma pow2_eq: "pow2 k = 2 powi k"
  by (simp add: pow2_def power_int_def power_one_over)

lemma pow2_pos: "0 < pow2 k"
  by (simp add: pow2_eq)

lemma pow2_add: "pow2 (a + b) = pow2 a * pow2 b"
  by (simp add: pow2_eq power_int_add)

lemma pow2_mono: "a \<le> b \<Longrightarrow> pow2 a \<le> pow2 b"
  by (simp add: pow2_eq power_int_increasing)

lemma pow2_nat: "pow2 (int n) = 2 ^ n"
  by (simp add: pow2_def)

lemma pow2_neg_nat: "pow2 (- int n) = 1 / 2 ^ n"
  by (simp add: pow2_eq power_int_minus field_simps)

lemma pow2_strict_mono: "pow2 a < pow2 b \<Longrightarrow> a < b"
  using pow2_mono [of b a] by (cases "a < b") simp_all

lemma pow2_52: "pow2 (e - 52) * 2 ^ 52 = pow2 e"
proof -
  have "pow2 (e - 52) * pow2 52 = pow2 e" by (simp add: pow2_add [symmetric])
  then show ?thesis by (simp add: pow2_def)
qed

lemma pow2_53: "pow2 (e - 52) * 2 ^ 53 = pow2 (e + 1)"
proof -
  have "pow2 (e - 52) * pow2 53 = pow2 (e + 1)" by (simp add: pow2_add [symmetric] add.commute)
  then show ?thesis by (simp add: pow2_def)
qed

text \<open>The binade of a number holds it.\<close>

lemma binade_bounds:
  assumes "x \<noteq> 0"
  shows "pow2 (binade x) \<le> \<bar>x\<bar> \<and> \<bar>x\<bar> < pow2 (binade x + 1)"
proof (cases "1 \<le> \<bar>x\<bar>")
  case True
  let ?n = "nat \<lfloor>\<bar>x\<bar>\<rfloor>"
  let ?k = "floorlog 2 ?n"
  have n: "0 < ?n" using True by simp
  from floorlog_bounds [OF n, of 2] have b: "2 ^ (?k - 1) \<le> ?n" "?n < 2 ^ ?k" by simp_all
  have k: "0 < ?k" using n by (simp add: floorlog_eq_zero_iff zero_less_iff_neq_zero)
  have e: "binade x = int ?k - 1" using True by (simp add: binade_def Let_def)
  have e': "binade x = int (?k - 1)" using e k by simp
  have "real ?n \<le> \<bar>x\<bar>" using True by (simp, linarith?)
  moreover have "(2::real) ^ (?k - 1) \<le> real ?n"
    using b(1) by (metis of_nat_le_iff of_nat_numeral of_nat_power)
  ultimately have lo: "pow2 (binade x) \<le> \<bar>x\<bar>"
    unfolding e' pow2_nat by linarith
  have "?n + 1 \<le> 2 ^ ?k" using b(2) by linarith
  then have "real (?n + 1) \<le> 2 ^ ?k"
    by (metis of_nat_le_iff of_nat_numeral of_nat_power)
  moreover have "\<bar>x\<bar> < real (?n + 1)" using True by (simp, linarith?)
  ultimately have "\<bar>x\<bar> < 2 ^ ?k" by linarith
  moreover have "binade x + 1 = int ?k" using e by simp
  ultimately have hi: "\<bar>x\<bar> < pow2 (binade x + 1)" by (simp add: pow2_nat)
  from lo hi show ?thesis by blast
next
  case False
  with assms have a: "0 < \<bar>x\<bar>" "\<bar>x\<bar> < 1" by simp_all
  let ?y = "1 / \<bar>x\<bar>"
  let ?n = "nat (\<lceil>?y\<rceil> - 1)"
  let ?k = "floorlog 2 ?n"
  have y: "1 < ?y" using a by simp
  then have c: "2 \<le> \<lceil>?y\<rceil>" by linarith
  then have n: "0 < ?n" by simp
  from floorlog_bounds [OF n, of 2] have b: "2 ^ (?k - 1) \<le> ?n" "?n < 2 ^ ?k" by simp_all
  have k: "0 < ?k" using n by (simp add: floorlog_eq_zero_iff zero_less_iff_neq_zero)
  have e: "binade x = - int ?k" using False by (simp add: binade_def Let_def)
  have "0 \<le> \<lceil>?y\<rceil> - 1" using c by linarith
  then have "real ?n = real_of_int (\<lceil>?y\<rceil> - 1)" by (rule of_nat_nat)
  then have rn: "real ?n = real_of_int \<lceil>?y\<rceil> - 1" by simp
  have "?n + 1 \<le> 2 ^ ?k" using b(2) by linarith
  then have "real (?n + 1) \<le> 2 ^ ?k"
    by (metis of_nat_le_iff of_nat_numeral of_nat_power)
  moreover have "?y \<le> real (?n + 1)" using rn by simp
  ultimately have "?y \<le> 2 ^ ?k" by linarith
  then have "1 \<le> 2 ^ ?k * \<bar>x\<bar>" using a by (simp add: field_simps)
  then have lo: "pow2 (binade x) \<le> \<bar>x\<bar>"
    unfolding e pow2_neg_nat by (simp add: field_simps)
  have "(2::real) ^ (?k - 1) \<le> real ?n"
    using b(1) by (metis of_nat_le_iff of_nat_numeral of_nat_power)
  moreover have "real ?n < ?y" unfolding rn by linarith
  ultimately have "2 ^ (?k - 1) < ?y" by linarith
  then have lt: "2 ^ (?k - 1) * \<bar>x\<bar> < 1" using a by (simp add: field_simps)
  have "binade x + 1 = - int (?k - 1)" using e k by simp
  then have p: "pow2 (binade x + 1) = 1 / 2 ^ (?k - 1)"
    by (simp only: pow2_neg_nat)
  have hi: "\<bar>x\<bar> < pow2 (binade x + 1)"
    unfolding p using lt by (simp add: field_simps)
  from lo hi show ?thesis by blast
qed

lemma roundEven_error: "\<bar>real_of_int (roundEven y) - y\<bar> \<le> 1 / 2"
  unfolding roundEven_def Let_def by (auto simp: abs_if) linarith+

lemma roundEven_of_int [simp]: "roundEven (real_of_int k) = k"
  by (simp add: roundEven_def)

lemma roundEven_mono:
  assumes "x \<le> y"
  shows "roundEven x \<le> roundEven y"
proof (rule ccontr)
  assume "\<not> roundEven x \<le> roundEven y"
  then have lt: "roundEven y + 1 \<le> roundEven x" by simp
  have ex: "real_of_int (roundEven x) - x \<le> 1 / 2" and ey: "y - real_of_int (roundEven y) \<le> 1 / 2"
    using roundEven_error [of x] roundEven_error [of y] by linarith+
  from lt have r: "real_of_int (roundEven y) + 1 \<le> real_of_int (roundEven x)"
    by (metis of_int_1 of_int_add of_int_le_iff)
  with ex ey assms have eq: "x = y" "real_of_int (roundEven x) = x + 1 / 2"
    by linarith+
  from lt show False unfolding eq(1) by simp
qed

lemma roundEven_neg: "roundEven (- y) = - roundEven y"
proof (cases "y = real_of_int \<lfloor>y\<rfloor>")
  case True
  then obtain k where "y = real_of_int k" ..
  then show ?thesis by (simp add: roundEven_of_int [of "- k", simplified])
next
  case False
  then have f: "\<lfloor>- y\<rfloor> = - \<lfloor>y\<rfloor> - 1"
    by (simp add: floor_minus ceiling_altdef)
  show ?thesis
    unfolding roundEven_def Let_def f using False
    by (auto simp: algebra_simps)
qed

lemma binade_neg [simp]: "binade (- x) = binade x"
  by (simp add: binade_def)

lemma fl_0 [simp]: "fl 0 = 0"
  by (simp add: fl_def)

lemma fl_neg: "fl (- x) = - fl x"
  by (simp add: fl_def Let_def roundEven_neg)

text \<open>The relative error of a rounding is at most \<open>2 ^ -53\<close>.\<close>

lemma fl_error: "\<bar>fl x - x\<bar> \<le> \<bar>x\<bar> / 2 ^ 53"
proof (cases "x = 0")
  case True
  then show ?thesis by simp
next
  case False
  let ?u = "pow2 (binade x - 52)"
  have u: "0 < ?u" by (rule pow2_pos)
  have "fl x - x = ?u * (real_of_int (roundEven (x / ?u)) - x / ?u)"
    using False u by (simp add: fl_def Let_def field_simps)
  then have "\<bar>fl x - x\<bar> = ?u * \<bar>real_of_int (roundEven (x / ?u)) - x / ?u\<bar>"
    using u by (simp add: abs_mult)
  also have "\<dots> \<le> ?u * (1 / 2)"
    using roundEven_error [of "x / ?u"] u by (intro mult_left_mono) simp_all
  also have "\<dots> = pow2 (binade x) / 2 ^ 53"
    using pow2_52 [of "binade x"] by (simp add: field_simps)
  also have "\<dots> \<le> \<bar>x\<bar> / 2 ^ 53"
    using binade_bounds [OF False] by (simp add: divide_right_mono)
  finally show ?thesis .
qed

lemma fl_in_binade:
  assumes "0 < x"
  shows "pow2 (binade x) \<le> fl x \<and> fl x \<le> pow2 (binade x + 1)"
proof -
  let ?u = "pow2 (binade x - 52)"
  have u: "0 < ?u" by (rule pow2_pos)
  have x: "x \<noteq> 0" using assms by simp
  from binade_bounds [OF x] assms have b: "pow2 (binade x) \<le> x" "x < pow2 (binade x + 1)"
    by simp_all
  have "2 ^ 52 \<le> x / ?u"
    using b(1) u pow2_52 [of "binade x"] by (simp add: field_simps)
  then have "roundEven (real_of_int (2 ^ 52)) \<le> roundEven (x / ?u)"
    by (intro roundEven_mono) simp
  then have lo: "(2::real) ^ 52 \<le> real_of_int (roundEven (x / ?u))"
    unfolding roundEven_of_int by (metis of_int_le_iff of_int_numeral of_int_power)
  have "x / ?u \<le> 2 ^ 53"
    using b(2) u pow2_53 [of "binade x"] by (simp add: field_simps)
  then have "roundEven (x / ?u) \<le> roundEven (real_of_int (2 ^ 53))"
    by (intro roundEven_mono) simp
  then have hi: "real_of_int (roundEven (x / ?u)) \<le> (2::real) ^ 53"
    unfolding roundEven_of_int by (metis of_int_le_iff of_int_numeral of_int_power)
  have f: "fl x = real_of_int (roundEven (x / ?u)) * ?u"
    using x by (simp add: fl_def Let_def)
  have "2 ^ 52 * ?u \<le> fl x" unfolding f using lo u by (intro mult_right_mono) simp_all
  moreover have "fl x \<le> 2 ^ 53 * ?u" unfolding f using hi u by (intro mult_right_mono) simp_all
  ultimately show ?thesis
    using pow2_52 [of "binade x"] pow2_53 [of "binade x"] by (simp add: mult.commute)
qed

lemma fl_pos: "0 < x \<Longrightarrow> 0 < fl x"
  using fl_in_binade [of x] pow2_pos [of "binade x"] by linarith

text \<open>Rounding is monotone, so it commutes with the maximum.\<close>

lemma fl_mono_pos:
  assumes "0 < x" and "x \<le> y"
  shows "fl x \<le> fl y"
proof -
  have y: "0 < y" using assms by simp
  have x0: "x \<noteq> 0" and y0: "y \<noteq> 0" using assms by simp_all
  from binade_bounds [OF x0] binade_bounds [OF y0] assms y
  have "pow2 (binade x) < pow2 (binade y + 1)" by simp
  then have le: "binade x \<le> binade y" using pow2_strict_mono by fastforce
  show ?thesis
  proof (cases "binade x = binade y")
    case True
    let ?u = "pow2 (binade y - 52)"
    have u: "0 < ?u" by (rule pow2_pos)
    have "x / ?u \<le> y / ?u" using assms(2) u by (simp add: divide_right_mono)
    then have "roundEven (x / ?u) \<le> roundEven (y / ?u)" by (rule roundEven_mono)
    then have "real_of_int (roundEven (x / ?u)) * ?u \<le> real_of_int (roundEven (y / ?u)) * ?u"
      using u by (intro mult_right_mono) simp_all
    then show ?thesis using x0 y0 True by (simp add: fl_def Let_def)
  next
    case False
    with le have "binade x + 1 \<le> binade y" by simp
    then have "pow2 (binade x + 1) \<le> pow2 (binade y)" by (rule pow2_mono)
    with fl_in_binade [OF assms(1)] fl_in_binade [OF y] show ?thesis by linarith
  qed
qed

lemma fl_mono:
  assumes "x \<le> y"
  shows "fl x \<le> fl y"
proof -
  consider "0 < x" | "x \<le> 0" "0 \<le> y" | "y < 0" by linarith
  then show ?thesis
  proof cases
    case 1
    then show ?thesis using assms by (rule fl_mono_pos)
  next
    case 2
    have "fl x \<le> 0"
    proof (cases "x = 0")
      case True then show ?thesis by simp
    next
      case False
      with 2 have "0 < - x" by simp
      from fl_pos [OF this] show ?thesis by (simp add: fl_neg)
    qed
    moreover have "0 \<le> fl y"
    proof (cases "y = 0")
      case True then show ?thesis by simp
    next
      case False
      with 2 have "0 < y" by simp
      from fl_pos [OF this] show ?thesis by simp
    qed
    ultimately show ?thesis by simp
  next
    case 3
    then have "0 < - y" "- y \<le> - x" using assms by simp_all
    from fl_mono_pos [OF this] show ?thesis by (simp add: fl_neg)
  qed
qed

lemma fl_max: "fl (max a b) = max (fl a) (fl b)"
  by (simp add: max_def fl_mono) (metis fl_mono linear order_antisym)

lemma fl_nonneg: "0 \<le> x \<Longrightarrow> 0 \<le> fl x"
  using fl_mono [of 0 x] by simp

subsection \<open>String literals\<close>

lemma of_char_bound: "of_char c < (256::nat)"
proof -
  have "(of_char c :: nat) mod 256 < 256" by (rule mod_less_divisor) simp
  then show ?thesis by (simp only: of_char_mod_256)
qed

lemma lit_eq_iff [simp]: "lit a = lit b \<longleftrightarrow> a = b"
proof -
  have "inj (\<lambda>c::char. (of_nat (of_char c) :: 16 word))"
  proof (rule injI)
    fix x y :: char
    assume "(of_nat (of_char x) :: 16 word) = of_nat (of_char y)"
    then have "unat (of_nat (of_char x) :: 16 word) = unat (of_nat (of_char y) :: 16 word)"
      by simp
    moreover have "of_char c < (65536::nat)" for c
      using of_char_bound [of c] by linarith
    ultimately have "(of_char x :: nat) = of_char y"
      by (simp add: unat_of_nat)
    then show "x = y" by simp
  qed
  then show ?thesis
    unfolding lit_def by simp
qed

lemma lit_eq_Nil [simp]: "lit s = [] \<longleftrightarrow> s = []"
  by (simp add: lit_def)

text \<open>
  C1. For every channel record, \<open>calculateStatus\<close> returns the first matching label of the
  five-step ladder of the specification, and that label is one of the eight defined status
  labels, which are pairwise different.
\<close>

theorem calculateStatus_ladder:
  "calculateStatus ch =
     classifyStatus_spec (brandAReach ch) (maxCompReach ch) (channelShare ch) (indexVsCompetition ch)
   \<and> calculateStatus ch \<in> set STATUS_STYLES_keys
   \<and> distinct STATUS_STYLES_keys \<and> length STATUS_STYLES_keys = 8"
  by (simp add: calculateStatus_def classifyStatus_spec_def STATUS_STYLES_keys_def)

subsection \<open>The optimizer loop\<close>

lemma optimizeChannel_not_DECREASE:
  "optimizeChannel toStr pc i t ch = Some r \<Longrightarrow> recommendation r \<noteq> DECREASE"
  unfolding optimizeChannel_def Let_def
  by (auto split: if_splits)

lemma set_update_cases:
  "(k', v') \<in> set (AList.update k v al) \<Longrightarrow> (k', v') = (k, v) \<or> (k', v') \<in> set al"
  by (induction al) (auto split: if_splits)

lemma fold_optimizeStep_inv:
  assumes "\<And>k r. (k, r) \<in> set acc \<Longrightarrow> P r"
    and "\<And>ch r. optimizeChannel toStr pc i t ch = Some r \<Longrightarrow> P r"
    and "(k, r) \<in> set (fold (optimizeStep toStr pc i t) chs acc)"
  shows "P r"
  using assms(1,3)
proof (induction chs arbitrary: acc)
  case Nil
  then show ?case by simp
next
  case (Cons c cs)
  have "P r'" if "(k', r') \<in> set (optimizeStep toStr pc i t c acc)" for k' r'
    using that Cons.prems(1) assms(2) [of c]
    by (auto simp: optimizeStep_def split: option.splits dest!: set_update_cases)
  moreover have "(k, r) \<in> set (fold (optimizeStep toStr pc i t) cs (optimizeStep toStr pc i t c acc))"
    using Cons.prems(2) by simp
  ultimately show ?case by (rule Cons.IH)
qed

lemma fold_optimizeStep_other:
  "k \<notin> channel ` set chs \<Longrightarrow> map_of (fold (optimizeStep toStr pc i t) chs acc) k = map_of acc k"
  by (induction chs arbitrary: acc)
     (auto simp: optimizeStep_def update_conv' split: option.splits)

lemma fold_optimizeStep_last:
  assumes "channel ch \<notin> channel ` set post" "optimizeChannel toStr pc i t ch = Some r"
  shows "map_of (fold (optimizeStep toStr pc i t) (pre @ ch # post) acc) (channel ch) = Some r"
  using assms by (simp add: fold_optimizeStep_other optimizeStep_def update_conv')

lemma runOptimization_fold:
  "runOptimization toStr channels i t =
     fold (optimizeStep toStr (getProtectedChannels channels t) i t) channels []"
  unfolding runOptimization_def Let_def ..

text \<open>
  C2. For every channel list, intensity and threshold, no entry of the map returned by
  \<open>runOptimization\<close> recommends \<open>DECREASE\<close>: the MAINTAIN rule (protected, or index at
  least 100) is tried before the DECREASE rule, whose guard asks for an index above 120.
\<close>

theorem runOptimization_never_DECREASE:
  "(k, r) \<in> set (runOptimization toStr channels intensity threshold) \<Longrightarrow>
     recommendation r \<noteq> DECREASE"
  unfolding runOptimization_fold
  by (rule fold_optimizeStep_inv [where P = "\<lambda>r. recommendation r \<noteq> DECREASE" and acc = "[]"])
     (auto dest: optimizeChannel_not_DECREASE)

text \<open>
  A channel that satisfies the guard of the DECREASE rule itself (not protected, reach
  between 0 and 1.5, index 130) is given MAINTAIN.
\<close>

theorem runOptimization_never_DECREASE_witness:
  "(lit ''B'', \<lparr>res_channel = lit ''B'', recommendation = MAINTAIN, priority = LOW,
                reason = lit ''Leading competition''\<rparr>)
     \<in> set (runOptimization exampleToStr
               [exampleChannel ''A'' 5 2 1 250, exampleChannel ''B'' 1 0.5 1 130] 15 50)
   \<and> lit ''B'' \<notin> set (getProtectedChannels
               [exampleChannel ''A'' 5 2 1 250, exampleChannel ''B'' 1 0.5 1 130] 50)
   \<and> recommendation \<lparr>res_channel = lit ''B'', recommendation = MAINTAIN, priority = LOW,
                reason = lit ''Leading competition''\<rparr> \<noteq> DECREASE"
proof -
  let ?chs = "[exampleChannel ''A'' 5 2 1 250, exampleChannel ''B'' 1 0.5 1 130]"
  let ?r = "\<lparr>res_channel = lit ''B'', recommendation = MAINTAIN, priority = LOW,
                reason = lit ''Leading competition''\<rparr>"
  have prot: "getProtectedChannels ?chs 50 = [lit ''A'']"
    by (simp add: getProtectedChannels_def exampleChannel_def slice0_def mulD_def divD_def fl_eval)
  have mem: "(lit ''B'', ?r) \<in> set (runOptimization exampleToStr ?chs 15 50)"
    unfolding runOptimization_fold prot
    by (simp add: optimizeStep_def optimizeChannel_def exampleChannel_def Let_def
        gapThreshold_def indexThreshold_def)
  from runOptimization_never_DECREASE [OF mem] mem prot show ?thesis by simp
qed

text \<open>
  C3. A channel with no own reach, a competitor at 2.0 or more and a share of 1.0 or more has
  status OPPORTUNITY, and \<open>runOptimization\<close> records ADD for it, with priority HIGH above a
  competitor reach of 5, MEDIUM above 3, else LOW. The entry read back from the map is the
  channel's own when no later channel of the list has the same name (names are the keys of
  the map).
\<close>

theorem opportunity_gets_ADD:
  assumes "channels = pre @ ch # post" and "channel ch \<notin> channel ` set post"
    and "brandAReach ch = 0" and "maxCompReach ch \<ge> 2.0" and "channelShare ch \<ge> 1.0"
  shows "calculateStatus ch = lit ''OPPORTUNITY'' \<and>
     map_of (runOptimization toStr channels intensity threshold) (channel ch) =
       Some \<lparr>res_channel = channel ch, recommendation = ADD,
             priority = (if maxCompReach ch > 5 then HIGH
                         else if maxCompReach ch > 3 then MEDIUM else LOW),
             reason = lit ''Competitor at '' @ toFixed toStr (maxCompReach ch) 1
                      @ lit ''%, Share '' @ toFixed toStr (channelShare ch) 1 @ lit ''%''\<rparr>"
proof -
  let ?r = "\<lparr>res_channel = channel ch, recommendation = ADD,
             priority = (if maxCompReach ch > 5 then HIGH
                         else if maxCompReach ch > 3 then MEDIUM else LOW),
             reason = lit ''Competitor at '' @ toFixed toStr (maxCompReach ch) 1
                      @ lit ''%, Share '' @ toFixed toStr (channelShare ch) 1 @ lit ''%''\<rparr>"
  have step: "optimizeChannel toStr (getProtectedChannels channels threshold) intensity threshold ch
      = Some ?r"
    using assms(3-5) by (simp add: optimizeChannel_def Let_def)
  have "map_of (runOptimization toStr channels intensity threshold) (channel ch) = Some ?r"
    unfolding runOptimization_fold
    by (subst (2) assms(1)) (rule fold_optimizeStep_last [OF assms(2) step])
  moreover have "calculateStatus ch = lit ''OPPORTUNITY''"
    using assms(3-5) by (simp add: calculateStatus_def)
  ultimately show ?thesis by blast
qed

text \<open>The scenario of the specification: reach 0, competitor 3.0, share 2.0.\<close>

theorem opportunity_gets_ADD_witness:
  "calculateStatus (exampleChannel ''Z'' 0 3.0 2.0 0) = lit ''OPPORTUNITY'' \<and>
   map_of (runOptimization exampleToStr
             [exampleChannel ''A'' 5 2 1 250, exampleChannel ''Z'' 0 3.0 2.0 0] 15 70)
        (lit ''Z'') =
     Some \<lparr>res_channel = lit ''Z'', recommendation = ADD, priority = LOW,
           reason = lit ''Competitor at 3.0%, Share 2.0%''\<rparr>"
  using opportunity_gets_ADD [of "[exampleChannel ''A'' 5 2 1 250, exampleChannel ''Z'' 0 3.0 2.0 0]"
      "[exampleChannel ''A'' 5 2 1 250]" "exampleChannel ''Z'' 0 3.0 2.0 0" "[]" exampleToStr 15 70]
  by (simp add: exampleChannel_def toFixed_def digits.simps Let_def lit_def)

text \<open>
  C4. A channel with own reach always gets an entry, and the entry is INCREASE exactly when
  its gap is below the gap threshold and its index below the index threshold, the
  thresholds being -3, -2, -1 and 70, 80, 90 for an intensity up to 10, up to 20 or above.
  The INCREASE entry has priority HIGH for a gap below -5, MEDIUM below -2, else LOW, and
  the reason text of the source. (With own reach the ADD rule cannot match; as for C3, no
  later channel of the list has the same name.)
\<close>

theorem increase_rule:
  assumes "channels = pre @ ch # post" and "channel ch \<notin> channel ` set post"
    and "brandAReach ch > 0"
  shows "(\<exists>r. map_of (runOptimization toStr channels intensity threshold) (channel ch) = Some r
            \<and> (recommendation r = INCREASE \<longleftrightarrow>
                 gap ch < (if intensity \<le> 10 then - 3 else if intensity \<le> 20 then - 2 else - 1)
                 \<and> indexVsCompetition ch
                     < (if intensity \<le> 10 then 70 else if intensity \<le> 20 then 80 else 90)))
     \<and> (gap ch < (if intensity \<le> 10 then - 3 else if intensity \<le> 20 then - 2 else - 1)
        \<and> indexVsCompetition ch < (if intensity \<le> 10 then 70 else if intensity \<le> 20 then 80 else 90)
        \<longrightarrow> map_of (runOptimization toStr channels intensity threshold) (channel ch) =
              Some \<lparr>res_channel = channel ch, recommendation = INCREASE,
                    priority = (if gap ch < - 5 then HIGH else if gap ch < - 2 then MEDIUM else LOW),
                    reason = lit ''Gap of '' @ toFixed toStr (gap ch) 1 @ lit '' pts, Index ''
                             @ toFixed toStr (indexVsCompetition ch) 0\<rparr>)"
proof -
  let ?c = "gap ch < (if intensity \<le> 10 then - 3 else if intensity \<le> 20 then - 2 else - 1)
     \<and> indexVsCompetition ch < (if intensity \<le> 10 then 70 else if intensity \<le> 20 then 80 else 90)"
  let ?inc = "\<lparr>res_channel = channel ch, recommendation = INCREASE,
             priority = (if gap ch < - 5 then HIGH else if gap ch < - 2 then MEDIUM else LOW),
             reason = lit ''Gap of '' @ toFixed toStr (gap ch) 1 @ lit '' pts, Index ''
                      @ toFixed toStr (indexVsCompetition ch) 0\<rparr>"
  let ?step = "optimizeChannel toStr (getProtectedChannels channels threshold) intensity threshold ch"
  have entry: "map_of (runOptimization toStr channels intensity threshold) (channel ch) = Some r"
    if "?step = Some r" for r
    unfolding runOptimization_fold
    by (subst (2) assms(1)) (rule fold_optimizeStep_last [OF assms(2) that])
  have yes: "?step = Some ?inc" if "?c"
    using assms(3) that
    by (simp add: optimizeChannel_def gapThreshold_def indexThreshold_def Let_def)
  have no: "\<exists>r. ?step = Some r \<and> recommendation r \<noteq> INCREASE" if "\<not> ?c"
    using assms(3) that
    by (auto simp add: optimizeChannel_def gapThreshold_def indexThreshold_def Let_def
        split: if_splits)
  have "\<exists>r. map_of (runOptimization toStr channels intensity threshold) (channel ch) = Some r
            \<and> (recommendation r = INCREASE \<longleftrightarrow> ?c)"
  proof (cases "?c")
    case True
    from entry [OF yes [OF True]] True show ?thesis by simp
  next
    case False
    from no [OF False] obtain r where r: "?step = Some r" "recommendation r \<noteq> INCREASE"
      by blast
    from entry [OF r(1)] r(2) False show ?thesis by simp
  qed
  moreover have "?c \<longrightarrow>
     map_of (runOptimization toStr channels intensity threshold) (channel ch) = Some ?inc"
    using entry yes by blast
  ultimately show ?thesis by blast
qed

text \<open>
  The scenario of the specification: reach 5.0, gap -6.0, index 60, intensity 15,
  threshold 70, the channel being the fourth of four by reach, hence not protected. The
  third channel of the list, with a gap of 5, is not given INCREASE.
\<close>

theorem increase_rule_witness:
  "lit ''S'' \<notin> set (getProtectedChannels exampleChannels 70) \<and>
   map_of (runOptimization exampleToStr exampleChannels 15 70) (lit ''S'') =
     Some \<lparr>res_channel = lit ''S'', recommendation = INCREASE, priority = HIGH,
           reason = lit ''Gap of -6.0 pts, Index 60''\<rparr> \<and>
   (\<exists>r. map_of (runOptimization exampleToStr exampleChannels 15 70) (lit ''R'') = Some r
        \<and> recommendation r \<noteq> INCREASE)"
proof -
  have "lit ''S'' \<notin> set (getProtectedChannels exampleChannels 70)"
    by (simp add: getProtectedChannels_def exampleChannels_def exampleChannel_def slice0_def
        mulD_def divD_def fl_eval)
  moreover have "map_of (runOptimization exampleToStr exampleChannels 15 70) (lit ''S'') =
     Some \<lparr>res_channel = lit ''S'', recommendation = INCREASE, priority = HIGH,
           reason = lit ''Gap of -6.0 pts, Index 60''\<rparr>"
    using increase_rule [of exampleChannels "take 3 exampleChannels" "exampleChannels ! 3" "[]"
        exampleToStr 15 70]
    by (simp add: exampleChannels_def exampleChannel_def toFixed_def digits.simps Let_def lit_def)
  moreover have "\<exists>r. map_of (runOptimization exampleToStr exampleChannels 15 70) (lit ''R'') = Some r
        \<and> recommendation r \<noteq> INCREASE"
    using increase_rule [of exampleChannels "take 2 exampleChannels" "exampleChannels ! 2"
        "drop 3 exampleChannels" exampleToStr 15 70]
    by (simp add: exampleChannels_def exampleChannel_def lit_def)
  ultimately show ?thesis by blast
qed

subsection \<open>The protected set\<close>

lemma cutoff_nonneg:
  assumes "0 \<le> t"
  shows "0 \<le> \<lceil>mulD (real n) (divD t 100)\<rceil>"
proof -
  have "0 \<le> divD t 100" unfolding divD_def using assms by (intro fl_nonneg) simp
  then have "0 \<le> mulD (real n) (divD t 100)" unfolding mulD_def by (intro fl_nonneg) simp
  then have "\<lceil>0::real\<rceil> \<le> \<lceil>mulD (real n) (divD t 100)\<rceil>" by (rule ceiling_mono)
  then show ?thesis by simp
qed

lemma cutoff_mono:
  assumes "t1 \<le> t2"
  shows "\<lceil>mulD (real n) (divD t1 100)\<rceil> \<le> \<lceil>mulD (real n) (divD t2 100)\<rceil>"
proof -
  have "divD t1 100 \<le> divD t2 100"
    unfolding divD_def using assms by (intro fl_mono divide_right_mono) simp_all
  then have "mulD (real n) (divD t1 100) \<le> mulD (real n) (divD t2 100)"
    unfolding mulD_def by (intro fl_mono mult_left_mono) simp_all
  then show ?thesis by (rule ceiling_mono)
qed

lemma getProtectedChannels_nonneg:
  assumes "0 \<le> t"
  shows "getProtectedChannels channels t =
     map channel
       (take (nat \<lceil>mulD (real (length (filter (\<lambda>ch. brandAReach ch > 0) channels))) (divD t 100)\<rceil>)
          (sort_key (\<lambda>ch. - brandAReach ch) (filter (\<lambda>ch. brandAReach ch > 0) channels)))"
  using cutoff_nonneg [OF assms, of "length (filter (\<lambda>ch. brandAReach ch > 0) channels)"]
  by (simp add: getProtectedChannels_def slice0_def Let_def)

lemma sorted_desc_sort_key:
  "sorted_wrt (\<lambda>a b. brandAReach a \<ge> brandAReach b) (sort_key (\<lambda>ch. - brandAReach ch) xs)"
  using sorted_sort_key [of "\<lambda>ch. - brandAReach ch" xs]
  by (simp add: sorted_map)

text \<open>
  For a threshold that is not negative the protected channels are a prefix of the channels
  with own reach in descending order of reach, as long as the cutoff of the source says,
  and the prefix grows with the threshold.
\<close>

lemma getProtectedChannels_prefix:
  assumes "0 \<le> t1" and "t1 \<le> t2"
  shows "\<exists>rest. getProtectedChannels channels t2 = getProtectedChannels channels t1 @ rest"
proof -
  let ?W = "filter (\<lambda>ch. brandAReach ch > 0) channels"
  let ?S = "sort_key (\<lambda>ch. - brandAReach ch) ?W"
  let ?k = "\<lambda>t. nat \<lceil>mulD (real (length ?W)) (divD t 100)\<rceil>"
  have t2: "0 \<le> t2" using assms by simp
  have g1: "getProtectedChannels channels t1 = map channel (take (?k t1) ?S)"
    by (rule getProtectedChannels_nonneg [OF assms(1)])
  have g2: "getProtectedChannels channels t2 = map channel (take (?k t2) ?S)"
    by (rule getProtectedChannels_nonneg [OF t2])
  have k: "?k t1 \<le> ?k t2"
    by (intro nat_mono cutoff_mono assms(2))
  have "take (?k t2) ?S = take (?k t1) (take (?k t2) ?S) @ drop (?k t1) (take (?k t2) ?S)"
    by (simp only: append_take_drop_id)
  also have "take (?k t1) (take (?k t2) ?S) = take (?k t1) ?S"
    using k by (simp add: min_def)
  finally have e: "take (?k t2) ?S = take (?k t1) ?S @ drop (?k t1) (take (?k t2) ?S)" .
  have "getProtectedChannels channels t2 =
      getProtectedChannels channels t1 @ map channel (drop (?k t1) (take (?k t2) ?S))"
    unfolding g1 g2 by (subst e) simp
  then show ?thesis ..
qed

lemma getProtectedChannels_length:
  assumes "0 \<le> t"
  shows "length (getProtectedChannels channels t) =
     min (length (filter (\<lambda>ch. brandAReach ch > 0) channels))
         (nat \<lceil>mulD (real (length (filter (\<lambda>ch. brandAReach ch > 0) channels))) (divD t 100)\<rceil>)"
  by (simp add: getProtectedChannels_nonneg [OF assms])

text \<open>
  C5. The number of protected channels is not always \<open>\<lceil>N * threshold / 100\<rceil>\<close>. With a
  hundred channels of positive reach and the threshold 55, a position of the slider, the
  quotient \<^verbatim>\<open>threshold / 100\<close> is the double just above 0.55, the product with 100 is the
  double 55.00000000000001, and \<^verbatim>\<open>Math.ceil\<close> makes the cutoff 56: the function
  protects 56 channels, where \<open>\<lceil>100 * 55 / 100\<rceil>\<close> is 55.
\<close>

theorem getProtectedChannels_cutoff_rounding:
  "length (filter (\<lambda>ch. brandAReach ch > 0) hundredChannels) = 100
   \<and> \<lceil>(100::real) * 55 / 100\<rceil> = 55
   \<and> divD 55 100 = 4953959590107546 / 2 ^ 53
   \<and> mulD 100 (divD 55 100) = 7740561859543041 / 2 ^ 47
   \<and> length (getProtectedChannels hundredChannels 55) = 56"
proof -
  have f: "filter (\<lambda>ch. brandAReach ch > 0) hundredChannels = hundredChannels"
    by (rule filter_True) (auto simp add: hundredChannels_def exampleChannel_def)
  have n: "length hundredChannels = 100"
    by (simp add: hundredChannels_def)
  have d: "divD 55 100 = 4953959590107546 / 2 ^ 53"
    by (simp add: divD_def fl_eval)
  have m: "mulD 100 (4953959590107546 / 2 ^ 53) = 7740561859543041 / 2 ^ 47"
    by (simp add: mulD_def fl_eval)
  have c: "\<lceil>(7740561859543041::real) / 2 ^ 47\<rceil> = 56"
    by (simp add: ceiling_eq_iff)
  have k: "\<lceil>mulD 100 (divD 55 100)\<rceil> = 56"
    by (simp only: d m c)
  have "length (getProtectedChannels hundredChannels 55)
      = min 100 (nat \<lceil>mulD 100 (divD 55 100)\<rceil>)"
    using getProtectedChannels_length [of 55 hundredChannels] unfolding f n by simp
  then have l: "length (getProtectedChannels hundredChannels 55) = 56"
    unfolding k by simp
  have "\<lceil>(100::real) * 55 / 100\<rceil> = 55" by simp
  moreover have "mulD 100 (divD 55 100) = 7740561859543041 / 2 ^ 47"
    by (simp only: d m)
  ultimately show ?thesis unfolding f using n d l by blast
qed

subsection \<open>Prime-time focus\<close>

text \<open>
  C10. For the four bands of a channel, in the order NPT, NCPT_EARLY, CPT, NCPT_LATE,
  \<open>calculatePrimeTimeFocus\<close> is the reach of the three prime bands over the reach of all
  four, times 100, and 0 when the total reach is 0.
\<close>

theorem primeTimeFocus_four_bands:
  assumes "map timeband tbs = TIMEBAND_LABELS"
  shows "calculatePrimeTimeFocus tbs =
     (let r = map tb_brandAReach tbs; total = r ! 0 + r ! 1 + r ! 2 + r ! 3
      in if total = 0 then 0 else (r ! 1 + r ! 2 + r ! 3) / total * 100)"
proof -
  from assms obtain n e c l where tbs: "tbs = [n, e, c, l]"
    and lab: "timeband n = lit ''NPT''" "timeband e = lit ''NCPT_EARLY''"
      "timeband c = lit ''CPT''" "timeband l = lit ''NCPT_LATE''"
    by (auto simp: TIMEBAND_LABELS_def map_eq_Cons_conv)
  show ?thesis
    unfolding tbs calculatePrimeTimeFocus_def Let_def
    by (simp add: lab)
qed

text \<open>The scenario of the specification: reaches 1, 2, 8, 3 give 13/14 of 100, 92.857...\<close>

theorem primeTimeFocus_four_bands_witness:
  "map timeband [exampleTimeband ''NPT'' 1 0, exampleTimeband ''NCPT_EARLY'' 2 0,
                 exampleTimeband ''CPT'' 8 0, exampleTimeband ''NCPT_LATE'' 3 0] = TIMEBAND_LABELS
   \<and> calculatePrimeTimeFocus [exampleTimeband ''NPT'' 1 0, exampleTimeband ''NCPT_EARLY'' 2 0,
                 exampleTimeband ''CPT'' 8 0, exampleTimeband ''NCPT_LATE'' 3 0] = 1300 / 14
   \<and> (92.857 :: real) < 1300 / 14 \<and> (1300 / 14 :: real) < 92.858"
proof -
  let ?tbs = "[exampleTimeband ''NPT'' 1 0, exampleTimeband ''NCPT_EARLY'' 2 0,
                 exampleTimeband ''CPT'' 8 0, exampleTimeband ''NCPT_LATE'' 3 0]"
  have h: "map timeband ?tbs = TIMEBAND_LABELS"
    by (simp add: exampleTimeband_def TIMEBAND_LABELS_def)
  from primeTimeFocus_four_bands [OF h] have "calculatePrimeTimeFocus ?tbs = 1300 / 14"
    by (simp add: exampleTimeband_def Let_def)
  with h show ?thesis by simp
qed

subsection \<open>Market consistency score\<close>

text \<open>
  C9. \<open>calculateMarketConsistencyScore\<close> always returns a number: 100 when the mean of the
  three market values is 0 (the division is not reached), and otherwise
  \<open>max 0 (min 100 ((1 - variance / avg) * 100))\<close>; the result lies between 0 and 100.
\<close>

theorem calculateMarketConsistencyScore_total:
  "\<exists>score. calculateMarketConsistencyScore comparison = Some score
     \<and> 0 \<le> score \<and> score \<le> 100
     \<and> score =
         (let avg = (UP (markets comparison) + Maharashtra (markets comparison)
                      + Karnataka (markets comparison)) / 3
          in if avg = 0 then 100
             else max 0 (min 100 ((1 - variance comparison / avg) * 100)))"
  by (simp add: calculateMarketConsistencyScore_def numDiv_def Let_def)

subsection \<open>The hash\<close>

text \<open>The hash of a three-letter string, computed round by round.\<close>

lemma simpleHash_example: "simpleHash (lit ''A_B'') = 65476"
  by (simp add: simpleHash_def lit_def hashStep_def)

subsection \<open>Channels absent from a district\<close>

lemma absentChannel_fields:
  "brandAReach (absentChannel ch) = 0 \<and> brandDReach (absentChannel ch) = Some 0
   \<and> luxReach (absentChannel ch) = Some 0 \<and> maxCompReach (absentChannel ch) = 0
   \<and> gap (absentChannel ch) = 0 \<and> indexVsCompetition (absentChannel ch) = 0
   \<and> indexVsBaseline (absentChannel ch) = indexVsBaseline ch"
  by (simp add: absentChannel_def)

lemma scaleChannel_indexVsBaseline:
  "indexVsBaseline (scaleChannel bf ms d ch) = indexVsBaseline ch"
  by (simp add: scaleChannel_def Let_def)

text \<open>
  \<open>calculateDistrictChannels\<close> returns one record per input record, each with the
  \<open>indexVsBaseline\<close> of its input record, and a channel that is not present in the
  district comes back as \<open>absentChannel\<close> of its record: own reach, \<open>brandDReach\<close>,
  \<open>luxReach\<close>, \<open>maxCompReach\<close>, \<open>gap\<close> and \<open>indexVsCompetition\<close> are 0, and every other
  field is the one of the input record, the competitor reaches \<open>brandEReach\<close>,
  \<open>brandBReach\<close> and \<open>brandCReach\<close> among them.
\<close>

lemma calculateDistrictChannels_absent:
  assumes "i < length serChannels"
  shows "length (calculateDistrictChannels serChannels d serDistricts) = length serChannels"
    and "indexVsBaseline (calculateDistrictChannels serChannels d serDistricts ! i)
          = indexVsBaseline (serChannels ! i)"
    and "\<not> getChannelPresence (district d) (channel (serChannels ! i)) (brandAReach (serChannels ! i))
            (maxOf (map brandAReach serChannels) (fl 0.01)) (channelShare (serChannels ! i))
            (maxOf (map channelShare serChannels) (fl 0.01)) d
         \<Longrightarrow> calculateDistrictChannels serChannels d serDistricts ! i = absentChannel (serChannels ! i)"
  using assms
  by (simp_all add: calculateDistrictChannels_def Let_def absentChannel_fields
      scaleChannel_indexVsBaseline)

lemma absentChannel_other_competitors:
  "brandEReach (absentChannel ch) = brandEReach ch
   \<and> brandBReach (absentChannel ch) = brandBReach ch
   \<and> brandCReach (absentChannel ch) = brandCReach ch"
  by (simp add: absentChannel_def)

text \<open>
  C8. The competitor reaches of an absent channel are not all zeroed. The third channel of
  the example region has own reach 0 and the competitor reaches \<open>brandDReach\<close> 3 and
  \<open>brandEReach\<close> 5, hence \<open>maxCompReach\<close> 5. It is absent from the district, and comes back
  with own reach, \<open>brandDReach\<close>, \<open>luxReach\<close>, \<open>maxCompReach\<close>, \<open>gap\<close> and
  \<open>indexVsCompetition\<close> 0 and \<open>indexVsBaseline\<close> unchanged, but with \<open>brandEReach\<close> still 5.
\<close>

theorem absent_channel_keeps_brandEReach:
  "length (calculateDistrictChannels exampleSerChannels exampleDistrict [exampleDistrict]) = 3
   \<and> channel (exampleSerChannels ! 2) = lit ''Gone''
   \<and> brandAReach (exampleSerChannels ! 2) = 0
   \<and> brandDReach (exampleSerChannels ! 2) = Some 3
   \<and> brandEReach (exampleSerChannels ! 2) = Some 5
   \<and> maxCompReach (exampleSerChannels ! 2) = 5
   \<and> (let out = calculateDistrictChannels exampleSerChannels exampleDistrict [exampleDistrict] ! 2
      in channel out = lit ''Gone'' \<and> brandAReach out = 0 \<and> brandDReach out = Some 0
         \<and> luxReach out = Some 0 \<and> maxCompReach out = 0 \<and> gap out = 0
         \<and> indexVsCompetition out = 0 \<and> indexVsBaseline out = 100
         \<and> brandEReach out = Some 5)"
proof -
  have i: "2 < length exampleSerChannels"
    by (simp add: exampleSerChannels_def)
  have ch: "exampleSerChannels ! 2
      = (exampleChannel ''Gone'' 0 5 2 0)\<lparr>brandDReach := Some 3, brandEReach := Some 5\<rparr>"
    by (simp add: exampleSerChannels_def)
  have "\<not> getChannelPresence (district exampleDistrict) (channel (exampleSerChannels ! 2))
      (brandAReach (exampleSerChannels ! 2)) (maxOf (map brandAReach exampleSerChannels) (fl 0.01))
      (channelShare (exampleSerChannels ! 2)) (maxOf (map channelShare exampleSerChannels) (fl 0.01))
      exampleDistrict"
    unfolding ch by (simp add: getChannelPresence_def exampleChannel_def)
  then have out: "calculateDistrictChannels exampleSerChannels exampleDistrict [exampleDistrict] ! 2
      = absentChannel ((exampleChannel ''Gone'' 0 5 2 0)\<lparr>brandDReach := Some 3, brandEReach := Some 5\<rparr>)"
    unfolding ch [symmetric] by (rule calculateDistrictChannels_absent(3) [OF i])
  have len: "length (calculateDistrictChannels exampleSerChannels exampleDistrict [exampleDistrict]) = 3"
    using calculateDistrictChannels_absent(1) [OF i] by (simp add: exampleSerChannels_def)
  show ?thesis
    unfolding out ch Let_def using len
    by (simp add: absentChannel_def exampleChannel_def)
qed

subsection \<open>The gap invariant\<close>

lemma hundredth_toFixedNum: "hundredth (toFixedNum x 2)"
proof (cases "x < 0")
  case True
  then have "toFixedNum x 2 = real_of_int (- \<lfloor>- x * 10\<^sup>2 + 1 / 2\<rfloor>) / 100"
    by (simp add: toFixedNum_def)
  then show ?thesis unfolding hundredth_def by blast
next
  case False
  then have "toFixedNum x 2 = real_of_int \<lfloor>x * 10\<^sup>2 + 1 / 2\<rfloor> / 100"
    by (simp add: toFixedNum_def)
  then show ?thesis unfolding hundredth_def by blast
qed

lemma hundredth_0: "hundredth 0"
  unfolding hundredth_def by (rule exI [of _ 0]) simp

lemma hundredth_diff: "hundredth a \<Longrightarrow> hundredth b \<Longrightarrow> hundredth (a - b)"
proof -
  assume "hundredth a" "hundredth b"
  then obtain k l :: int where "a = real_of_int k / 100" "b = real_of_int l / 100"
    unfolding hundredth_def by blast
  then have "a - b = real_of_int (k - l) / 100" by (simp add: diff_divide_distrib)
  then show ?thesis unfolding hundredth_def by blast
qed

text \<open>Rounding to two decimals finds a number with two decimals from anywhere within 0.005.\<close>

lemma toFixedNum_near:
  assumes "hundredth h" and "\<bar>y - h\<bar> < 1 / 200"
  shows "toFixedNum y 2 = h"
proof -
  from assms(1) obtain k :: int where h: "h = real_of_int k / 100"
    unfolding hundredth_def by blast
  from assms(2) have lo: "real_of_int k - 1 / 2 < y * 100"
    unfolding h by linarith
  from assms(2) have hi: "y * 100 < real_of_int k + 1 / 2"
    unfolding h by linarith
  show ?thesis
  proof (cases "y < 0")
    case True
    have "\<lfloor>- y * 100 + 1 / 2\<rfloor> = - k"
      using lo hi by (intro floor_unique) simp_all
    then show ?thesis using True by (simp add: toFixedNum_def h)
  next
    case False
    have "\<lfloor>y * 100 + 1 / 2\<rfloor> = k"
      using lo hi by (intro floor_unique) simp_all
    then show ?thesis using False by (simp add: toFixedNum_def h)
  qed
qed

lemma hundredthD_toFixedD [simp]: "hundredthD (toFixedD x 2)"
  unfolding hundredthD_def toFixedD_def using hundredth_toFixedNum by blast

lemma hundredthD_0 [simp]: "hundredthD 0"
  unfolding hundredthD_def using hundredth_0 fl_0 by metis

lemma hundredthD_max [simp]: "hundredthD a \<Longrightarrow> hundredthD b \<Longrightarrow> hundredthD (max a b)"
  by (simp add: max_def)

lemma hundredthD_orZero [simp]: "hundredthD (orZero (map_option (\<lambda>v. toFixedD (f v) 2) x))"
  by (cases x) (simp_all add: orZero_def)

lemma abs_le_of_fl:
  assumes "\<bar>fl a\<bar> \<le> b"
  shows "\<bar>a\<bar> \<le> 2 * b"
proof -
  have "\<bar>a\<bar> / 2 ^ 53 \<le> \<bar>a\<bar> / 2" by (intro divide_left_mono) simp_all
  with fl_error [of a] assms show ?thesis by linarith
qed

lemma fl_error_bound:
  assumes "\<bar>x\<bar> \<le> b"
  shows "\<bar>fl x - x\<bar> \<le> b / 2 ^ 53"
proof -
  have "\<bar>x\<bar> / 2 ^ 53 \<le> b / 2 ^ 53" using assms by (intro divide_right_mono) simp_all
  with fl_error [of x] show ?thesis by linarith
qed

text \<open>
  The gap \<^verbatim>\<open>+(a - m).toFixed(2)\<close> of two values of \<^verbatim>\<open>+(x).toFixed(2)\<close>: the double
  difference is within 0.005 of the difference of the two decimals, which the rounding
  to two decimals therefore finds; the gap is the double nearest to it.
\<close>

lemma gap_tolerance_toFixed:
  assumes "hundredthD a" and "hundredthD m" and "\<bar>a\<bar> \<le> 10 ^ 6" and "\<bar>m\<bar> \<le> 10 ^ 6"
  shows "gapWithinTolerance (toFixedD (subD a m) 2) a m"
proof -
  from assms(1) obtain p where p: "hundredth p" "a = fl p" unfolding hundredthD_def by blast
  from assms(2) obtain q where q: "hundredth q" "m = fl q" unfolding hundredthD_def by blast
  have bp: "\<bar>p\<bar> \<le> 2 * 10 ^ 6" using assms(3) unfolding p(2) by (rule abs_le_of_fl)
  have bq: "\<bar>q\<bar> \<le> 2 * 10 ^ 6" using assms(4) unfolding q(2) by (rule abs_le_of_fl)
  have ep: "\<bar>a - p\<bar> \<le> 2 * 10 ^ 6 / 2 ^ 53" unfolding p(2) using bp by (rule fl_error_bound)
  have eq: "\<bar>m - q\<bar> \<le> 2 * 10 ^ 6 / 2 ^ 53" unfolding q(2) using bq by (rule fl_error_bound)
  have bd: "\<bar>a - m\<bar> \<le> 2 * 10 ^ 6" using assms(3,4) by linarith
  have ed: "\<bar>fl (a - m) - (a - m)\<bar> \<le> 2 * 10 ^ 6 / 2 ^ 53" using bd by (rule fl_error_bound)
  have h: "hundredth (p - q)" using p(1) q(1) by (rule hundredth_diff)
  have "\<bar>fl (a - m) - (p - q)\<bar> \<le> 6 * 10 ^ 6 / 2 ^ 53" using ep eq ed by linarith
  then have "\<bar>fl (a - m) - (p - q)\<bar> < 1 / 200" by simp
  with h have "toFixedNum (fl (a - m)) 2 = p - q" by (rule toFixedNum_near)
  then have g: "toFixedD (subD a m) 2 = fl (p - q)" by (simp add: toFixedD_def subD_def)
  have "\<bar>p - q\<bar> \<le> 4 * 10 ^ 6" using bp bq by linarith
  then have eh: "\<bar>fl (p - q) - (p - q)\<bar> \<le> 4 * 10 ^ 6 / 2 ^ 53" by (rule fl_error_bound)
  have "\<bar>fl (p - q) - (a - m)\<bar> \<le> 8 * 10 ^ 6 / 2 ^ 53" using eh ep eq by linarith
  then have one: "\<bar>fl (p - q) - (a - m)\<bar> < 1 / 10 ^ 6" by simp
  have "\<bar>fl (p - q) - fl (a - m)\<bar> \<le> 10 * 10 ^ 6 / 2 ^ 53" using eh ep eq ed by linarith
  then have two: "\<bar>fl (p - q) - fl (a - m)\<bar> < 1 / 10 ^ 6" by simp
  show ?thesis unfolding gapWithinTolerance_def g using one two by (simp add: subD_def)
qed

text \<open>The gap \<^verbatim>\<open>a - m\<close>, one double subtraction.\<close>

lemma gap_tolerance_subD:
  assumes "\<bar>a\<bar> \<le> 10 ^ 6" and "\<bar>m\<bar> \<le> 10 ^ 6"
  shows "gapWithinTolerance (subD a m) a m"
proof -
  have "\<bar>a - m\<bar> \<le> 2 * 10 ^ 6" using assms by linarith
  then have "\<bar>fl (a - m) - (a - m)\<bar> \<le> 2 * 10 ^ 6 / 2 ^ 53" by (rule fl_error_bound)
  then have "\<bar>fl (a - m) - (a - m)\<bar> < 1 / 10 ^ 6" by simp
  then show ?thesis by (simp add: gapWithinTolerance_def subD_def)
qed

lemma gapWithinTolerance_0 [simp]: "gapWithinTolerance 0 0 0"
  by (simp add: gapWithinTolerance_def subD_def)

lemma maxOf_Max: "maxOf xs d = Max (insert d (set xs))"
proof (induction xs)
  case Nil
  then show ?case by (simp add: maxOf_def)
next
  case (Cons x xs)
  have "Max (insert d (set (x # xs))) = Max (insert x (insert d (set xs)))"
    by (simp add: insert_commute)
  also have "\<dots> = max x (Max (insert d (set xs)))"
    by (rule Max_insert) simp_all
  finally show ?case using Cons by (simp add: maxOf_def)
qed

subsubsection \<open>District records\<close>

lemma absentTimeband_gap:
  "gapWithinTolerance (tb_gap (absentTimeband tb)) (tb_brandAReach (absentTimeband tb))
      (tb_maxCompReach (absentTimeband tb))
   \<and> tb_maxCompReach (absentTimeband tb)
       = max (orZero (tb_brandDReach (absentTimeband tb))) (orZero (tb_luxReach (absentTimeband tb)))"
  by (simp add: absentTimeband_def orZero_def)

lemma absentChannel_gap:
  "gapWithinTolerance (gap (absentChannel ch)) (brandAReach (absentChannel ch))
      (maxCompReach (absentChannel ch))
   \<and> maxCompReach (absentChannel ch)
       = max (orZero (brandDReach (absentChannel ch))) (orZero (luxReach (absentChannel ch)))"
  by (simp add: absentChannel_def orZero_def)

lemma absentChannel_timebands:
  "timebands (absentChannel ch) = Some tbs \<Longrightarrow> tb \<in> set tbs \<Longrightarrow>
     gapWithinTolerance (tb_gap tb) (tb_brandAReach tb) (tb_maxCompReach tb)
     \<and> tb_maxCompReach tb = max (orZero (tb_brandDReach tb)) (orZero (tb_luxReach tb))"
  by (auto simp: absentChannel_def absentTimeband_def orZero_def)

lemma scaleTimeband_gap:
  assumes "t = scaleTimeband ff c1 c2 tw n u tb"
  shows "(\<bar>tb_brandAReach t\<bar> \<le> 10 ^ 6 \<and> \<bar>tb_maxCompReach t\<bar> \<le> 10 ^ 6
            \<longrightarrow> gapWithinTolerance (tb_gap t) (tb_brandAReach t) (tb_maxCompReach t))
     \<and> tb_maxCompReach t \<ge> max (orZero (tb_brandDReach t)) (orZero (tb_luxReach t))"
proof -
  have a: "hundredthD (tb_brandAReach t)"
    unfolding assms by (simp add: scaleTimeband_def Let_def)
  have m: "hundredthD (tb_maxCompReach t)"
    unfolding assms by (simp add: scaleTimeband_def Let_def)
  have g: "tb_gap t = toFixedD (subD (tb_brandAReach t) (tb_maxCompReach t)) 2"
    unfolding assms by (simp add: scaleTimeband_def Let_def)
  have "tb_maxCompReach t \<ge> max (orZero (tb_brandDReach t)) (orZero (tb_luxReach t))"
    unfolding assms by (simp add: scaleTimeband_def Let_def)
  with gap_tolerance_toFixed [OF a m] show ?thesis unfolding g by blast
qed

lemma scaleChannel_gap:
  assumes "c = scaleChannel bf ms d ch"
  shows "(\<bar>brandAReach c\<bar> \<le> 10 ^ 6 \<and> \<bar>maxCompReach c\<bar> \<le> 10 ^ 6
            \<longrightarrow> gapWithinTolerance (gap c) (brandAReach c) (maxCompReach c))
     \<and> maxCompReach c = max (orZero (brandDReach c)) (orZero (luxReach c))"
proof -
  have a: "hundredthD (brandAReach c)"
    unfolding assms by (simp add: scaleChannel_def Let_def)
  have m: "hundredthD (maxCompReach c)"
    unfolding assms by (simp add: scaleChannel_def Let_def)
  have g: "gap c = toFixedD (subD (brandAReach c) (maxCompReach c)) 2"
    unfolding assms by (simp add: scaleChannel_def Let_def)
  have "maxCompReach c = max (orZero (brandDReach c)) (orZero (luxReach c))"
    unfolding assms by (simp add: scaleChannel_def Let_def)
  with gap_tolerance_toFixed [OF a m] show ?thesis unfolding g by blast
qed

lemma scaleChannel_timebands:
  "timebands (scaleChannel bf ms d ch) = Some tbs \<Longrightarrow> t \<in> set tbs \<Longrightarrow>
     (\<bar>tb_brandAReach t\<bar> \<le> 10 ^ 6 \<and> \<bar>tb_maxCompReach t\<bar> \<le> 10 ^ 6
        \<longrightarrow> gapWithinTolerance (tb_gap t) (tb_brandAReach t) (tb_maxCompReach t))
     \<and> tb_maxCompReach t \<ge> max (orZero (tb_brandDReach t)) (orZero (tb_luxReach t))"
  using scaleTimeband_gap
  by (auto simp: scaleChannel_def Let_def split: option.splits)

lemma district_gap:
  assumes "out \<in> set (calculateDistrictChannels serChannels d serDistricts)"
  shows "(\<bar>brandAReach out\<bar> \<le> 10 ^ 6 \<and> \<bar>maxCompReach out\<bar> \<le> 10 ^ 6
            \<longrightarrow> gapWithinTolerance (gap out) (brandAReach out) (maxCompReach out))
     \<and> maxCompReach out = max (orZero (brandDReach out)) (orZero (luxReach out))
     \<and> (\<forall>tbs tb. timebands out = Some tbs \<longrightarrow> tb \<in> set tbs \<longrightarrow>
          (\<bar>tb_brandAReach tb\<bar> \<le> 10 ^ 6 \<and> \<bar>tb_maxCompReach tb\<bar> \<le> 10 ^ 6
             \<longrightarrow> gapWithinTolerance (tb_gap tb) (tb_brandAReach tb) (tb_maxCompReach tb))
          \<and> tb_maxCompReach tb \<ge> max (orZero (tb_brandDReach tb)) (orZero (tb_luxReach tb)))"
proof -
  from assms obtain ch where
    "out = absentChannel ch \<or>
     out = scaleChannel (getBaseCdmiFactor d serDistricts)
             (maxOf (map channelShare serChannels) (fl 0.01)) d ch"
    by (auto simp: calculateDistrictChannels_def Let_def split: if_splits)
  then show ?thesis
  proof
    assume o: "out = absentChannel ch"
    show ?thesis unfolding o using absentChannel_gap [of ch] absentChannel_timebands [of ch]
      by (metis order_refl)
  next
    assume o: "out = scaleChannel (getBaseCdmiFactor d serDistricts)
             (maxOf (map channelShare serChannels) (fl 0.01)) d ch"
    show ?thesis
      using scaleChannel_gap [OF o] scaleChannel_timebands [of _ _ d ch] unfolding o by blast
  qed
qed

text \<open>
  For an urban share between 0 and 1 every weight of a band is at least 3/4, so the total
  weight of a channel with bands, by which the weights are divided, is positive.
\<close>

lemma urbanShift_bound:
  assumes "0 \<le> u" and "u \<le> 1"
  shows "\<bar>mulD (subD u (fl 0.15)) (fl 0.15)\<bar> \<le> 1 / 2"
proof -
  have c: "0 \<le> fl 0.15" "fl 0.15 \<le> 1 / 2"
    by (simp_all add: fl_eval)
  have one: "fl 1 = 1" "fl (- 1) = - 1" by (simp_all add: fl_eval)
  have "- 1 \<le> u - fl 0.15" using assms c by linarith
  then have lo: "fl (- 1) \<le> subD u (fl 0.15)" unfolding subD_def by (rule fl_mono)
  have "u - fl 0.15 \<le> 1" using assms c by linarith
  then have hi: "subD u (fl 0.15) \<le> fl 1" unfolding subD_def by (rule fl_mono)
  from lo hi have s: "\<bar>subD u (fl 0.15)\<bar> \<le> 1" unfolding one by linarith
  have "\<bar>subD u (fl 0.15) * fl 0.15\<bar> \<le> 1 * (1 / 2)"
    unfolding abs_mult using s c by (intro mult_mono) simp_all
  then have p: "- (1 / 2) \<le> subD u (fl 0.15) * fl 0.15" "subD u (fl 0.15) * fl 0.15 \<le> 1 / 2"
    by linarith+
  have "fl (- (1 / 2)) \<le> mulD (subD u (fl 0.15)) (fl 0.15)"
    unfolding mulD_def using p(1) by (rule fl_mono)
  moreover have "mulD (subD u (fl 0.15)) (fl 0.15) \<le> fl (1 / 2)"
    unfolding mulD_def using p(2) by (rule fl_mono)
  moreover have "fl (1 / 2) = 1 / 2" "fl (- (1 / 2)) = - (1 / 2)" by (simp_all add: fl_eval)
  ultimately show ?thesis by linarith
qed

lemma weight_bound:
  assumes "\<bar>s\<bar> \<le> 1 / 2" and "0 \<le> c" and "c \<le> 1 / 2"
  shows "3 / 4 \<le> addD 1 (mulD s c)" and "3 / 4 \<le> subD 1 (mulD s c)"
proof -
  have "\<bar>s * c\<bar> \<le> (1 / 2) * (1 / 2)"
    unfolding abs_mult using assms by (intro mult_mono) simp_all
  then have p: "- (1 / 4) \<le> s * c" "s * c \<le> 1 / 4" by linarith+
  have "fl (- (1 / 4)) \<le> mulD s c"
    unfolding mulD_def using p(1) by (rule fl_mono)
  moreover have "mulD s c \<le> fl (1 / 4)"
    unfolding mulD_def using p(2) by (rule fl_mono)
  moreover have "fl (1 / 4) = 1 / 4" "fl (- (1 / 4)) = - (1 / 4)" by (simp_all add: fl_eval)
  ultimately have b: "- (1 / 4) \<le> mulD s c" "mulD s c \<le> 1 / 4" by linarith+
  have t: "fl (3 / 4) = 3 / 4" by (simp add: fl_eval)
  have "fl (3 / 4) \<le> addD 1 (mulD s c)"
    unfolding addD_def using b by (intro fl_mono) linarith
  then show "3 / 4 \<le> addD 1 (mulD s c)" unfolding t .
  have "fl (3 / 4) \<le> subD 1 (mulD s c)"
    unfolding subD_def using b by (intro fl_mono) linarith
  then show "3 / 4 \<le> subD 1 (mulD s c)" unfolding t .
qed

lemma urbanShift_weight_pos:
  assumes "0 \<le> u" and "u \<le> 1"
  shows "3 / 4 \<le> getTimebandUrbanShift tb u"
proof -
  note s = urbanShift_bound [OF assms]
  have c: "0 \<le> fl 0.4" "fl 0.4 \<le> 1 / 2" "0 \<le> fl 0.1" "fl 0.1 \<le> 1 / 2"
    by (simp_all add: fl_eval)
  show ?thesis
    unfolding getTimebandUrbanShift_def Let_def
    using weight_bound [OF s c(1,2)] weight_bound [OF s c(3,4)] weight_bound [OF s, of "1 / 2"]
    by simp
qed

lemma totalWeight_pos:
  assumes "0 \<le> u" and "u \<le> 1" and "tbs \<noteq> []"
  shows "0 < foldl (\<lambda>s tb. addD s (getTimebandUrbanShift (timeband tb) u)) 0 tbs"
proof -
  have "0 < foldl (\<lambda>s tb. addD s (getTimebandUrbanShift (timeband tb) u)) a tbs"
    if "tbs \<noteq> [] \<or> 0 < a" and "0 \<le> a" for a
    using that
  proof (induction tbs arbitrary: a)
    case Nil
    then show ?case by simp
  next
    case (Cons t ts)
    have "0 < a + getTimebandUrbanShift (timeband t) u"
      using urbanShift_weight_pos [OF assms(1,2), of "timeband t"] Cons.prems(2) by linarith
    then have p: "0 < addD a (getTimebandUrbanShift (timeband t) u)"
      unfolding addD_def by (rule fl_pos)
    from Cons.IH [of "addD a (getTimebandUrbanShift (timeband t) u)"] p
    show ?case by simp
  qed
  from this [of 0] assms(3) show ?thesis by simp
qed

subsubsection \<open>Parsed and sample records\<close>

lemma timebandMetricsOf_gap:
  "tb_gap (timebandMetricsOf tb market data)
     = subD (tb_brandAReach (timebandMetricsOf tb market data))
         (tb_maxCompReach (timebandMetricsOf tb market data))
   \<and> tb_maxCompReach (timebandMetricsOf tb market data)
       = Max (insert 0 (set (map (\<lambda>(c, vals). average vals) (td_competitors data))))
   \<and> timeband (timebandMetricsOf tb market data) = tb"
  by (simp add: timebandMetricsOf_def Let_def maxOf_Max comp_def case_prod_unfold image_image)

lemma createEmptyTimeband_gap:
  "tb_gap (createEmptyTimeband tb market)
     = subD (tb_brandAReach (createEmptyTimeband tb market))
         (tb_maxCompReach (createEmptyTimeband tb market))
   \<and> tb_gap (createEmptyTimeband tb market)
     = tb_brandAReach (createEmptyTimeband tb market) - tb_maxCompReach (createEmptyTimeband tb market)
   \<and> tb_maxCompReach (createEmptyTimeband tb market) = 0
   \<and> timeband (createEmptyTimeband tb market) = tb"
  by (simp add: createEmptyTimeband_def subD_def)

lemma parse_gap:
  assumes "parseTimebandData rawData market = Inr result"
  shows "\<exists>m. groupRows rawData [] = Inr m \<and> map fst result = map fst m
     \<and> (\<forall>i < length result. length (snd (result ! i)) = 4 \<and> (\<forall>j < 4.
          timeband (snd (result ! i) ! j) = TIMEBAND_LABELS ! j
          \<and> tb_gap (snd (result ! i) ! j)
              = subD (tb_brandAReach (snd (result ! i) ! j)) (tb_maxCompReach (snd (result ! i) ! j))
          \<and> tb_maxCompReach (snd (result ! i) ! j)
              = Max (insert 0 (set (case map_of (snd (m ! i)) (TIMEBAND_LABELS ! j) of
                                      None \<Rightarrow> []
                                    | Some data \<Rightarrow> map (\<lambda>(c, vals). average vals) (td_competitors data))))))"
proof -
  from assms obtain m where m: "groupRows rawData [] = Inr m"
    and r: "result = map (\<lambda>(ch, timebandData).
                      (ch, map (\<lambda>tb. case map_of timebandData tb of
                                         None \<Rightarrow> createEmptyTimeband tb market
                                       | Some data \<Rightarrow> timebandMetricsOf tb market data)
                               TIMEBAND_LABELS)) m"
    by (auto simp: parseTimebandData_def split: sum.splits)
  have len: "length TIMEBAND_LABELS = 4" by (simp add: TIMEBAND_LABELS_def)
  have "map fst result = map fst m"
    unfolding r by (simp add: comp_def case_prod_unfold)
  moreover have "length (snd (result ! i)) = 4 \<and> (\<forall>j < 4.
          timeband (snd (result ! i) ! j) = TIMEBAND_LABELS ! j
          \<and> tb_gap (snd (result ! i) ! j)
              = subD (tb_brandAReach (snd (result ! i) ! j)) (tb_maxCompReach (snd (result ! i) ! j))
          \<and> tb_maxCompReach (snd (result ! i) ! j)
              = Max (insert 0 (set (case map_of (snd (m ! i)) (TIMEBAND_LABELS ! j) of
                                      None \<Rightarrow> []
                                    | Some data \<Rightarrow> map (\<lambda>(c, vals). average vals) (td_competitors data)))))"
    if i: "i < length result" for i
  proof -
    from i have im: "i < length m" unfolding r by simp
    have s: "snd (result ! i) = map (\<lambda>tb. case map_of (snd (m ! i)) tb of
                                         None \<Rightarrow> createEmptyTimeband tb market
                                       | Some data \<Rightarrow> timebandMetricsOf tb market data)
                               TIMEBAND_LABELS"
      unfolding r using im by (simp add: case_prod_unfold)
    show ?thesis
      unfolding s using len timebandMetricsOf_gap createEmptyTimeband_gap
      by (auto split: option.splits)
  qed
  ultimately show ?thesis using m by blast
qed

lemma max_scale:
  assumes "0 \<le> m"
  shows "max 0 (max (mulD a m) (mulD b m)) = mulD (max 0 (max a b)) m"
proof -
  have "max (a * m) (b * m) = max a b * m"
    using assms by (simp add: max_mult_distrib_right)
  moreover have "max 0 (c * m) = max 0 c * m" for c
    using max_mult_distrib_right [of 0 c m] assms by simp
  ultimately have "max 0 (max (a * m) (b * m)) = max 0 (max a b) * m" by simp
  then have "fl (max 0 (max (a * m) (b * m))) = mulD (max 0 (max a b)) m"
    by (simp add: mulD_def)
  then show ?thesis by (simp add: fl_max mulD_def)
qed

lemma scaledOrZero_orZero: "scaledOrZero v m = mulD (orZero v) m"
  by (cases v) (simp_all add: scaledOrZero_def orZero_def mulD_def)

lemma compMultiplier_pos:
  assumes "tb \<in> set TIMEBAND_LABELS"
  shows "0 < the (map_of (snd (getChannelDistribution ch)) tb)"
  using assms by (auto simp: getChannelDistribution_def TIMEBAND_LABELS_def Let_def intro!: fl_pos)

lemma sample_gap:
  assumes "tb \<in> set (generateSampleTimebandData ch market)"
  shows "tb_gap tb = subD (tb_brandAReach tb) (tb_maxCompReach tb)
     \<and> (market \<noteq> lit ''Karnataka''
          \<and> maxCompReach ch = max 0 (max (orZero (brandDReach ch)) (orZero (brandEReach ch)))
        \<longrightarrow> tb_maxCompReach tb = max 0 (max (orZero (tb_brandDReach tb)) (orZero (tb_brandEReach tb))))
     \<and> (market = lit ''Karnataka''
          \<and> maxCompReach ch = max 0 (max (orZero (brandBReach ch)) (orZero (brandCReach ch)))
        \<longrightarrow> tb_maxCompReach tb = max 0 (max (orZero (tb_brandBReach tb)) (orZero (tb_brandCReach tb))))"
proof -
  from assms obtain label where l: "label \<in> set TIMEBAND_LABELS" and tb: "tb = sampleTimeband ch market label"
    by (auto simp: generateSampleTimebandData_def)
  let ?m = "the (map_of (snd (getChannelDistribution ch)) label)"
  have pos: "0 \<le> ?m" using compMultiplier_pos [OF l, of ch] by simp
  show ?thesis
    unfolding tb
    by (simp add: sampleTimeband_def Let_def scaledOrZero_orZero max_scale [OF pos] orZero_def)
qed

subsubsection \<open>Runs of the model\<close>

text \<open>
  The values of the model on the example data, each a double written as the decimal it is
  nearest to (\<open>fl 11.05\<close>) or as a fraction with a power of 2 below.
\<close>

lemma normalizeTimebandString_example: "normalizeTimebandString (lit ''19:00:00 - 22:00:00'') = lit ''19-22''"
  by (simp add: normalizeTimebandString_def lit_def isDigit_def isSpace_def)

lemma normalizeTimebandString_label: "normalizeTimebandString (lit ''NPT'') = lit ''NPT''"
  by (simp add: normalizeTimebandString_def lit_def isDigit_def isSpace_def)

lemma groupRows_example: "groupRows exampleRows [] =
   Inr [(lit ''Big'',
         [(lit ''NPT'', \<lparr>td_reach = [4, 6], td_share = [1], td_ots = [0],
             td_competitors = [(lit ''Brand D'', [2]), (lit ''Brand E'', [3, 5])]\<rparr>),
          (lit ''19-22'', \<lparr>td_reach = [9], td_share = [], td_ots = [], td_competitors = []\<rparr>)])]"
  by (simp add: exampleRows_def exampleRow_def addRow_def aggregate_def falsy_def normalizeTimebandString_example normalizeTimebandString_label
      propertyKey_def emptyData_def numberOf_def Let_def OBJECT_PROTOTYPE_KEYS_def)

lemma average_examples:
  "average [4, 6] = 5" "average [1] = 1" "average [0] = 0" "average [2] = 2" "average [3, 5] = 4"
  by (simp_all add: average_def addD_def divD_def fl_eval)

lemma parseTimebandData_example: "parseTimebandData exampleRows (lit ''UP'') =
   Inr [(lit ''Big'',
         [\<lparr>timeband = lit ''NPT'', tb_brandAReach = 5, tb_brandAShare = 1, tb_brandAOTS = 0,
           tb_brandDReach = Some 2, tb_luxReach = None, tb_brandEReach = Some 4,
           tb_brandBReach = None, tb_brandCReach = None, tb_maxCompReach = 4, tb_gap = 1,
           tb_atcIndex = None, isPrimetime = False, daypartCategory = lit ''non-prime''\<rparr>,
          createEmptyTimeband (lit ''NCPT_EARLY'') (lit ''UP''),
          createEmptyTimeband (lit ''CPT'') (lit ''UP''),
          createEmptyTimeband (lit ''NCPT_LATE'') (lit ''UP'')])]"
proof -
  have s: "subD 5 4 = 1" by (simp add: subD_def fl_eval)
  show ?thesis
    by (simp add: parseTimebandData_def groupRows_example TIMEBAND_LABELS_def timebandMetricsOf_def
        average_examples s maxOf_def orZero_def daypartIsPrime_def daypartCategoryOf_def Let_def)
qed

lemma getChannelJitter_full_share: "getChannelJitter (lit ''Shravasti'') (lit ''Big'') 5 5 suf = 0"
proof -
  have "divD 5 5 = 1" by (simp add: divD_def fl_eval)
  then show ?thesis by (simp add: getChannelJitter_def Let_def subD_def mulD_def)
qed

lemma exampleDistrict_fields:
  "district exampleDistrict = lit ''Shravasti''" "urbanPct exampleDistrict = fl 0.05"
  "literacyPct exampleDistrict = fl 0.4" "cdmiScore exampleDistrict = fl 0.3"
  by (simp_all add: exampleDistrict_def)

lemma presenceScore_example:
  "presenceScore 10 10 5 5 exampleDistrict = 1385419835369849 / 2251799813685248"
  by (simp add: presenceScore_def exampleDistrict_def addD_def mulD_def divD_def fl_eval)

lemma presenceThreshold_example:
  "presenceThreshold (lit ''Shravasti'') (lit ''Big'') = 7154454396837789 / 36028797018963968"
proof -
  have h: "simpleHash (lit ''presence_'' @ lit ''Shravasti'' @ lit ''_'' @ lit ''Big'') mod 10000 = 7322"
    by (simp add: simpleHash_def lit_def hashStep_def)
  show ?thesis
    unfolding presenceThreshold_def h Let_def
    by (simp add: addD_def subD_def mulD_def divD_def fl_eval)
qed

lemma getChannelPresence_example: "getChannelPresence (lit ''Shravasti'') (lit ''Big'') 10 10 5 5 exampleDistrict"
  by (simp add: getChannelPresence_def presenceScore_example presenceThreshold_example)

lemma getGenreAffinity_example: "getGenreAffinity (lit ''GEC'') (fl 0.05) (fl 0.4) = fl 1.105"
  by (simp add: getGenreAffinity_def GENRE_CATEGORY_def addD_def subD_def mulD_def fl_eval)

lemma getBaseCdmiFactor_example: "getBaseCdmiFactor exampleDistrict [exampleDistrict] = 1"
proof -
  have "divD (addD 0 (fl 0.3)) 1 = fl 0.3" by (simp add: divD_def addD_def fl_eval)
  then show ?thesis
    by (simp add: getBaseCdmiFactor_def exampleDistrict_fields Let_def subD_def mulD_def addD_def)
       (simp add: fl_eval)
qed

lemma generateSampleTimebandData_example:
  "(\<lambda>tb. (tb_brandAReach tb, tb_brandDReach tb, tb_brandEReach tb, tb_maxCompReach tb, tb_gap tb))
     (hd (generateSampleTimebandData exampleRegionChannel (lit ''UP'')))
   = (fl 5.1, Some (fl 0.4), Some 2, 2, 1745144855606067 / 2 ^ 49)"
proof -
  have d: "getChannelDistribution exampleRegionChannel =
     ([(lit ''NPT'', addD (fl 0.48) (fl 0.03)), (lit ''NCPT_EARLY'', fl 0.16),
       (lit ''CPT'', subD (fl 0.24) (fl 0.03)), (lit ''NCPT_LATE'', fl 0.12)],
      [(lit ''NPT'', fl 0.40), (lit ''NCPT_EARLY'', fl 0.13), (lit ''CPT'', fl 0.36),
       (lit ''NCPT_LATE'', fl 0.11)])"
    by (simp add: getChannelDistribution_def exampleRegionChannel_def exampleChannel_def lit_def
        divD_def Let_def)
  have m: "the (map_of (fst (getChannelDistribution exampleRegionChannel)) (lit ''NPT''))
             = addD (fl 0.48) (fl 0.03)"
    "the (map_of (snd (getChannelDistribution exampleRegionChannel)) (lit ''NPT'')) = fl 0.40"
    by (simp_all add: d)
  have v: "mulD 10 (addD (fl 0.48) (fl 0.03)) = fl 5.1" "mulD 5 (fl 0.40) = 2"
    "scaledOrZero (Some 1) (fl 0.40) = fl 0.4" "scaledOrZero (Some 5) (fl 0.40) = 2"
    "subD (fl 5.1) 2 = 1745144855606067 / 2 ^ 49"
    by (simp_all add: scaledOrZero_def addD_def subD_def mulD_def fl_eval)
  have f: "brandAReach exampleRegionChannel = 10" "maxCompReach exampleRegionChannel = 5"
    "brandDReach exampleRegionChannel = Some 1" "brandEReach exampleRegionChannel = Some 5"
    by (simp_all add: exampleRegionChannel_def exampleChannel_def)
  have h: "hd (generateSampleTimebandData exampleRegionChannel (lit ''UP''))
      = sampleTimeband exampleRegionChannel (lit ''UP'') (lit ''NPT'')"
    by (simp add: generateSampleTimebandData_def TIMEBAND_LABELS_def)
  show ?thesis
    unfolding h sampleTimeband_def Let_def m f v
    by simp
qed

lemma exampleRegionChannel_fields:
  "channel exampleRegionChannel = lit ''Big''" "genre exampleRegionChannel = lit ''GEC''"
  "brandAReach exampleRegionChannel = 10" "channelShare exampleRegionChannel = 5"
  "brandDReach exampleRegionChannel = Some 1" "luxReach exampleRegionChannel = None"
  "timebands exampleRegionChannel = Some exampleBands"
  by (simp_all add: exampleRegionChannel_def exampleChannel_def)

lemma exampleMax:
  "maxOf (map channelShare [exampleRegionChannel]) (fl 0.01) = 5"
  "maxOf (map brandAReach [exampleRegionChannel]) (fl 0.01) = 10"
  by (simp_all add: maxOf_def exampleRegionChannel_fields fl_eval)

lemma exampleDistrictChannel_eq:
  "exampleDistrictChannel = scaleChannel 1 5 exampleDistrict exampleRegionChannel"
  unfolding exampleDistrictChannel_def calculateDistrictChannels_def Let_def exampleMax
    getBaseCdmiFactor_example
  using getChannelPresence_example
  by (simp add: exampleDistrict_fields(1) exampleRegionChannel_fields)

lemma exampleFactor: "clampFactor (mulD (mulD 1 (fl 1.105)) (addD 1 0)) = fl 1.105"
  by (simp add: clampFactor_def mulD_def addD_def fl_eval)

lemma exampleDistrictChannel_fields:
  "brandAReach exampleDistrictChannel = fl 11.05"
  "brandDReach exampleDistrictChannel = Some (fl 1.1)"
  "luxReach exampleDistrictChannel = None"
  "maxCompReach exampleDistrictChannel = fl 1.1"
  "gap exampleDistrictChannel = fl 9.95"
  "indexVsCompetition exampleDistrictChannel = 1004.5"
proof -
  have a: "toFixedD (mulD 10 (fl 1.105)) 2 = fl 11.05"
    by (simp add: toFixedD_def toFixedNum_def mulD_def fl_eval)
  have d: "toFixedD (mulD 1 (fl 1.105)) 2 = fl 1.1"
    by (simp add: toFixedD_def toFixedNum_def mulD_def fl_eval)
  have m: "max (orZero (Some (fl 1.1))) (orZero None) = fl 1.1"
    by (simp add: orZero_def fl_eval)
  have p: "0 < fl 1.1" by (simp add: fl_eval)
  have g: "toFixedD (subD (fl 11.05) (fl 1.1)) 2 = fl 9.95"
    by (simp add: toFixedD_def toFixedNum_def subD_def fl_eval)
  have i: "toFixedD (mulD (divD (fl 11.05) (fl 1.1)) 100) 1 = 1004.5"
    by (simp add: toFixedD_def toFixedNum_def mulD_def divD_def fl_eval)
  have e: "exampleDistrictChannel =
      exampleRegionChannel\<lparr>brandAReach := fl 11.05, brandDReach := Some (fl 1.1),
        luxReach := None, maxCompReach := fl 1.1, gap := fl 9.95,
        indexVsCompetition := 1004.5, indexVsBaseline := indexVsBaseline exampleRegionChannel,
        timebands := timebands (scaleChannel 1 5 exampleDistrict exampleRegionChannel)\<rparr>"
    unfolding exampleDistrictChannel_eq scaleChannel_def Let_def exampleDistrict_fields
      exampleRegionChannel_fields getChannelJitter_full_share getGenreAffinity_example
      exampleFactor option.map a d m g i
    using p by simp
  show "brandAReach exampleDistrictChannel = fl 11.05"
    "brandDReach exampleDistrictChannel = Some (fl 1.1)"
    "luxReach exampleDistrictChannel = None"
    "maxCompReach exampleDistrictChannel = fl 1.1"
    "gap exampleDistrictChannel = fl 9.95"
    "indexVsCompetition exampleDistrictChannel = 1004.5"
    by (subst e, simp)+
qed

lemma exampleBands_hd:
  "exampleBands \<noteq> []" "length exampleBands = 4"
  "timeband (hd exampleBands) = lit ''NPT''"
  "tb_brandAReach (hd exampleBands) = 4" "tb_maxCompReach (hd exampleBands) = 5"
  "tb_brandDReach (hd exampleBands) = Some 1" "tb_luxReach (hd exampleBands) = None"
  "tb_brandEReach (hd exampleBands) = Some 5" "tb_brandBReach (hd exampleBands) = None"
  "tb_brandCReach (hd exampleBands) = None"
  by (simp_all add: exampleBands_def exampleTimeband_def)

lemma exampleWeights:
  "getTimebandUrbanShift (lit ''NPT'') (fl 0.05) = fl 1.006"
  "foldl (\<lambda>s tb. addD s (getTimebandUrbanShift (timeband tb) (fl 0.05))) 0 exampleBands
     = 9000443855299937 / 2 ^ 51"
  by (simp_all add: exampleBands_def exampleTimeband_def getTimebandUrbanShift_def addD_def
      subD_def mulD_def fl_eval)

lemma exampleDistrictBand_eq:
  "exampleDistrictBand =
     scaleTimeband (fl 1.105) (fl 1.105) (fl 1.105) (9000443855299937 / 2 ^ 51) 4 (fl 0.05)
       (hd exampleBands)"
  unfolding exampleDistrictBand_def exampleDistrictChannel_eq scaleChannel_def Let_def
    exampleDistrict_fields exampleRegionChannel_fields getChannelJitter_full_share
    getGenreAffinity_example exampleFactor option.case exampleWeights(2) exampleBands_hd(2)
  using exampleBands_hd(1) by (simp add: hd_map)

lemma exampleDistrictBand_fields:
  "tb_brandAReach exampleDistrictBand = fl 4.45"
  "tb_brandDReach exampleDistrictBand = Some (fl 1.11)"
  "tb_luxReach exampleDistrictBand = None"
  "tb_brandEReach exampleDistrictBand = Some 5"
  "tb_brandBReach exampleDistrictBand = None"
  "tb_brandCReach exampleDistrictBand = None"
  "tb_maxCompReach exampleDistrictBand = fl 5.56"
  "tb_gap exampleDistrictBand = fl (- 1.11)"
proof -
  have na: "mulD (divD (fl 1.006) (9000443855299937 / 2 ^ 51)) (real 4) = 4534021741440799 / 2 ^ 52"
    by (simp add: mulD_def divD_def fl_eval)
  have a: "toFixedD (mulD (mulD 4 (fl 1.105)) (4534021741440799 / 2 ^ 52)) 2 = fl 4.45"
    by (simp add: toFixedD_def toFixedNum_def mulD_def fl_eval)
  have c: "toFixedD (mulD (mulD 5 (fl 1.105)) (4534021741440799 / 2 ^ 52)) 2 = fl 5.56"
    by (simp add: toFixedD_def toFixedNum_def mulD_def fl_eval)
  have d: "toFixedD (mulD (mulD 1 (fl 1.105)) (4534021741440799 / 2 ^ 52)) 2 = fl 1.11"
    by (simp add: toFixedD_def toFixedNum_def mulD_def fl_eval)
  have m: "max (max (orZero (Some (fl 1.11))) (orZero None)) (fl 5.56) = fl 5.56"
    by (simp add: orZero_def fl_eval)
  have g: "toFixedD (subD (fl 4.45) (fl 5.56)) 2 = fl (- 1.11)"
    by (simp add: toFixedD_def toFixedNum_def subD_def fl_eval)
  have e: "exampleDistrictBand =
      (hd exampleBands)\<lparr>tb_brandAReach := fl 4.45,
        tb_brandAShare := tb_brandAShare exampleDistrictBand,
        tb_brandAOTS := tb_brandAOTS exampleDistrictBand,
        tb_brandDReach := Some (fl 1.11), tb_luxReach := None,
        tb_maxCompReach := fl 5.56, tb_gap := fl (- 1.11)\<rparr>"
    unfolding exampleDistrictBand_eq scaleTimeband_def Let_def exampleBands_hd exampleWeights(1)
      na option.map a c d m g
    by simp
  show "tb_brandAReach exampleDistrictBand = fl 4.45"
    "tb_brandDReach exampleDistrictBand = Some (fl 1.11)"
    "tb_luxReach exampleDistrictBand = None"
    "tb_brandEReach exampleDistrictBand = Some 5"
    "tb_brandBReach exampleDistrictBand = None"
    "tb_brandCReach exampleDistrictBand = None"
    "tb_maxCompReach exampleDistrictBand = fl 5.56"
    "tb_gap exampleDistrictBand = fl (- 1.11)"
    by (subst e, simp add: exampleBands_hd)+
qed

text \<open>
  A region-level band whose \<open>maxCompReach\<close> 5 is the maximum of its competitor reaches 1 and
  5, in the shape \<open>parseTimebandData\<close> and \<open>generateSampleTimebandData\<close> give (fields
  \<open>brandDReach\<close> and \<open>brandEReach\<close>), scaled to a district: \<open>maxCompReach\<close> becomes 5.56,
  the scaled region-level value, while the competitor reaches of the record are 1.11 and 5.
\<close>

theorem district_timeband_maxCompReach_counterexample:
  "tb_maxCompReach (hd exampleBands) = max 0 (max 1 5)
   \<and> tb_brandDReach exampleDistrictBand = Some (fl 1.11)
   \<and> tb_luxReach exampleDistrictBand = None
   \<and> tb_brandEReach exampleDistrictBand = Some 5
   \<and> tb_brandBReach exampleDistrictBand = None
   \<and> tb_brandCReach exampleDistrictBand = None
   \<and> tb_maxCompReach exampleDistrictBand = fl 5.56
   \<and> \<bar>tb_maxCompReach exampleDistrictBand - max 0 (max (fl 1.11) 5)\<bar> > 1 / 2"
proof -
  have "\<bar>fl 5.56 - max 0 (max (fl 1.11) 5)\<bar> > 1 / 2"
    by (simp add: fl_eval)
  then show ?thesis
    by (simp add: exampleDistrictBand_fields exampleBands_hd)
qed

text \<open>
  C6, as the code has it. \<open>gapWithinTolerance g a m\<close> says that \<open>g\<close> is within \<open>10\<^sup>-\<^sup>6\<close> of
  \<open>a - m\<close>, the difference taken exactly and taken as the double subtraction. In every
  timeband record made by \<open>parseTimebandData\<close>, \<open>createEmptyTimeband\<close> and
  \<open>generateSampleTimebandData\<close>, and in every channel record and timeband record made by
  \<open>calculateDistrictChannels\<close>, the gap is within that tolerance of the own reach minus
  \<open>maxCompReach\<close>, for reaches of magnitude up to \<open>10\<^sup>6\<close>. In the first three the gap is the
  double subtraction itself (0 for \<open>createEmptyTimeband\<close>); in
  \<open>calculateDistrictChannels\<close> it is the double subtraction rounded to two decimals, which
  need not be the double subtraction (11.05 - 1.1 is 9.950000000000001 in doubles, the gap
  is 9.95). \<open>maxCompReach\<close> is
  \<^item> for \<open>parseTimebandData\<close>, the maximum of 0 and the mean reaches of the competitor target
    groups recorded for the channel and band (0 for a band without rows);
  \<^item> for \<open>createEmptyTimeband\<close>, 0;
  \<^item> for \<open>generateSampleTimebandData\<close>, the maximum of 0 and the two competitor reaches of
    the market, provided that holds of the channel record it is given;
  \<^item> for a channel record of \<open>calculateDistrictChannels\<close>, the maximum of
    \<^verbatim>\<open>brandDReach || 0\<close> and \<^verbatim>\<open>luxReach || 0\<close>;
  \<^item> for a timeband record of \<open>calculateDistrictChannels\<close>, at least that maximum: the
    scaled region-level \<open>maxCompReach\<close> of the band takes part in it.
  The district is one of a region that has districts, with an urban share between 0 and 1,
  so that the mean of the region and the weights of the bands are divided by numbers other
  than 0 (lemma \<open>totalWeight_pos\<close>).
\<close>

theorem gap_invariant:
  "(\<forall>result. parseTimebandData rawData market = Inr result \<longrightarrow>
       (\<exists>m. groupRows rawData [] = Inr m \<and> map fst result = map fst m
          \<and> (\<forall>i < length result. length (snd (result ! i)) = 4 \<and> (\<forall>j < 4.
                timeband (snd (result ! i) ! j) = TIMEBAND_LABELS ! j
                \<and> tb_gap (snd (result ! i) ! j)
                    = subD (tb_brandAReach (snd (result ! i) ! j))
                        (tb_maxCompReach (snd (result ! i) ! j))
                \<and> (\<bar>tb_brandAReach (snd (result ! i) ! j)\<bar> \<le> 10 ^ 6
                     \<and> \<bar>tb_maxCompReach (snd (result ! i) ! j)\<bar> \<le> 10 ^ 6
                    \<longrightarrow> gapWithinTolerance (tb_gap (snd (result ! i) ! j))
                          (tb_brandAReach (snd (result ! i) ! j))
                          (tb_maxCompReach (snd (result ! i) ! j)))
                \<and> tb_maxCompReach (snd (result ! i) ! j)
                    = Max (insert 0 (set (case map_of (snd (m ! i)) (TIMEBAND_LABELS ! j) of
                                            None \<Rightarrow> []
                                          | Some data \<Rightarrow>
                                              map (\<lambda>(c, vals). average vals) (td_competitors data))))))))
    \<and> (tb_gap (createEmptyTimeband label market)
          = tb_brandAReach (createEmptyTimeband label market)
            - tb_maxCompReach (createEmptyTimeband label market)
        \<and> tb_maxCompReach (createEmptyTimeband label market) = 0)
    \<and> (\<forall>tb \<in> set (generateSampleTimebandData ch market).
          tb_gap tb = subD (tb_brandAReach tb) (tb_maxCompReach tb)
          \<and> (\<bar>tb_brandAReach tb\<bar> \<le> 10 ^ 6 \<and> \<bar>tb_maxCompReach tb\<bar> \<le> 10 ^ 6
              \<longrightarrow> gapWithinTolerance (tb_gap tb) (tb_brandAReach tb) (tb_maxCompReach tb))
          \<and> (market \<noteq> lit ''Karnataka''
               \<and> maxCompReach ch = max 0 (max (orZero (brandDReach ch)) (orZero (brandEReach ch)))
              \<longrightarrow> tb_maxCompReach tb
                    = max 0 (max (orZero (tb_brandDReach tb)) (orZero (tb_brandEReach tb))))
          \<and> (market = lit ''Karnataka''
               \<and> maxCompReach ch = max 0 (max (orZero (brandBReach ch)) (orZero (brandCReach ch)))
              \<longrightarrow> tb_maxCompReach tb
                    = max 0 (max (orZero (tb_brandBReach tb)) (orZero (tb_brandCReach tb)))))
    \<and> (serDistricts \<noteq> [] \<and> 0 \<le> urbanPct d \<and> urbanPct d \<le> 1 \<longrightarrow>
        (\<forall>out \<in> set (calculateDistrictChannels serChannels d serDistricts).
          (\<bar>brandAReach out\<bar> \<le> 10 ^ 6 \<and> \<bar>maxCompReach out\<bar> \<le> 10 ^ 6
              \<longrightarrow> gapWithinTolerance (gap out) (brandAReach out) (maxCompReach out))
          \<and> maxCompReach out = max (orZero (brandDReach out)) (orZero (luxReach out))
          \<and> (\<forall>tbs tb. timebands out = Some tbs \<longrightarrow> tb \<in> set tbs \<longrightarrow>
                (\<bar>tb_brandAReach tb\<bar> \<le> 10 ^ 6 \<and> \<bar>tb_maxCompReach tb\<bar> \<le> 10 ^ 6
                   \<longrightarrow> gapWithinTolerance (tb_gap tb) (tb_brandAReach tb) (tb_maxCompReach tb))
                \<and> tb_maxCompReach tb
                    \<ge> max (orZero (tb_brandDReach tb)) (orZero (tb_luxReach tb)))))"
proof (intro conjI)
  show "\<forall>result. parseTimebandData rawData market = Inr result \<longrightarrow>
       (\<exists>m. groupRows rawData [] = Inr m \<and> map fst result = map fst m
          \<and> (\<forall>i < length result. length (snd (result ! i)) = 4 \<and> (\<forall>j < 4.
                timeband (snd (result ! i) ! j) = TIMEBAND_LABELS ! j
                \<and> tb_gap (snd (result ! i) ! j)
                    = subD (tb_brandAReach (snd (result ! i) ! j))
                        (tb_maxCompReach (snd (result ! i) ! j))
                \<and> (\<bar>tb_brandAReach (snd (result ! i) ! j)\<bar> \<le> 10 ^ 6
                     \<and> \<bar>tb_maxCompReach (snd (result ! i) ! j)\<bar> \<le> 10 ^ 6
                    \<longrightarrow> gapWithinTolerance (tb_gap (snd (result ! i) ! j))
                          (tb_brandAReach (snd (result ! i) ! j))
                          (tb_maxCompReach (snd (result ! i) ! j)))
                \<and> tb_maxCompReach (snd (result ! i) ! j)
                    = Max (insert 0 (set (case map_of (snd (m ! i)) (TIMEBAND_LABELS ! j) of
                                            None \<Rightarrow> []
                                          | Some data \<Rightarrow>
                                              map (\<lambda>(c, vals). average vals) (td_competitors data)))))))"
  proof (intro allI impI)
    fix result
    assume "parseTimebandData rawData market = Inr result"
    from parse_gap [OF this] obtain m where m: "groupRows rawData [] = Inr m"
      "map fst result = map fst m"
      and r: "\<And>i j. i < length result \<Longrightarrow> length (snd (result ! i)) = 4"
        "\<And>i j. i < length result \<Longrightarrow> j < 4 \<Longrightarrow>
          timeband (snd (result ! i) ! j) = TIMEBAND_LABELS ! j
          \<and> tb_gap (snd (result ! i) ! j)
              = subD (tb_brandAReach (snd (result ! i) ! j)) (tb_maxCompReach (snd (result ! i) ! j))
          \<and> tb_maxCompReach (snd (result ! i) ! j)
              = Max (insert 0 (set (case map_of (snd (m ! i)) (TIMEBAND_LABELS ! j) of
                                      None \<Rightarrow> []
                                    | Some data \<Rightarrow> map (\<lambda>(c, vals). average vals) (td_competitors data))))"
      by blast
    have "\<bar>tb_brandAReach (snd (result ! i) ! j)\<bar> \<le> 10 ^ 6
            \<and> \<bar>tb_maxCompReach (snd (result ! i) ! j)\<bar> \<le> 10 ^ 6
          \<longrightarrow> gapWithinTolerance (tb_gap (snd (result ! i) ! j))
                (tb_brandAReach (snd (result ! i) ! j)) (tb_maxCompReach (snd (result ! i) ! j))"
      if "i < length result" "j < 4" for i j
      using r(2) [OF that] gap_tolerance_subD by metis
    with m r show "\<exists>m. groupRows rawData [] = Inr m \<and> map fst result = map fst m
          \<and> (\<forall>i < length result. length (snd (result ! i)) = 4 \<and> (\<forall>j < 4.
                timeband (snd (result ! i) ! j) = TIMEBAND_LABELS ! j
                \<and> tb_gap (snd (result ! i) ! j)
                    = subD (tb_brandAReach (snd (result ! i) ! j))
                        (tb_maxCompReach (snd (result ! i) ! j))
                \<and> (\<bar>tb_brandAReach (snd (result ! i) ! j)\<bar> \<le> 10 ^ 6
                     \<and> \<bar>tb_maxCompReach (snd (result ! i) ! j)\<bar> \<le> 10 ^ 6
                    \<longrightarrow> gapWithinTolerance (tb_gap (snd (result ! i) ! j))
                          (tb_brandAReach (snd (result ! i) ! j))
                          (tb_maxCompReach (snd (result ! i) ! j)))
                \<and> tb_maxCompReach (snd (result ! i) ! j)
                    = Max (insert 0 (set (case map_of (snd (m ! i)) (TIMEBAND_LABELS ! j) of
                                            None \<Rightarrow> []
                                          | Some data \<Rightarrow>
                                              map (\<lambda>(c, vals). average vals) (td_competitors data))))))"
      by (intro exI [of _ m]) simp
  qed
next
  show "tb_gap (createEmptyTimeband label market)
          = tb_brandAReach (createEmptyTimeband label market)
            - tb_maxCompReach (createEmptyTimeband label market)"
    using createEmptyTimeband_gap by blast
next
  show "tb_maxCompReach (createEmptyTimeband label market) = 0"
    using createEmptyTimeband_gap by blast
next
  show "\<forall>tb \<in> set (generateSampleTimebandData ch market).
          tb_gap tb = subD (tb_brandAReach tb) (tb_maxCompReach tb)
          \<and> (\<bar>tb_brandAReach tb\<bar> \<le> 10 ^ 6 \<and> \<bar>tb_maxCompReach tb\<bar> \<le> 10 ^ 6
              \<longrightarrow> gapWithinTolerance (tb_gap tb) (tb_brandAReach tb) (tb_maxCompReach tb))
          \<and> (market \<noteq> lit ''Karnataka''
               \<and> maxCompReach ch = max 0 (max (orZero (brandDReach ch)) (orZero (brandEReach ch)))
              \<longrightarrow> tb_maxCompReach tb
                    = max 0 (max (orZero (tb_brandDReach tb)) (orZero (tb_brandEReach tb))))
          \<and> (market = lit ''Karnataka''
               \<and> maxCompReach ch = max 0 (max (orZero (brandBReach ch)) (orZero (brandCReach ch)))
              \<longrightarrow> tb_maxCompReach tb
                    = max 0 (max (orZero (tb_brandBReach tb)) (orZero (tb_brandCReach tb))))"
  proof
    fix tb
    assume tb: "tb \<in> set (generateSampleTimebandData ch market)"
    note s = sample_gap [OF tb]
    from s have g: "tb_gap tb = subD (tb_brandAReach tb) (tb_maxCompReach tb)" by blast
    have "\<bar>tb_brandAReach tb\<bar> \<le> 10 ^ 6 \<and> \<bar>tb_maxCompReach tb\<bar> \<le> 10 ^ 6
              \<longrightarrow> gapWithinTolerance (tb_gap tb) (tb_brandAReach tb) (tb_maxCompReach tb)"
      unfolding g using gap_tolerance_subD by blast
    with s show "tb_gap tb = subD (tb_brandAReach tb) (tb_maxCompReach tb)
          \<and> (\<bar>tb_brandAReach tb\<bar> \<le> 10 ^ 6 \<and> \<bar>tb_maxCompReach tb\<bar> \<le> 10 ^ 6
              \<longrightarrow> gapWithinTolerance (tb_gap tb) (tb_brandAReach tb) (tb_maxCompReach tb))
          \<and> (market \<noteq> lit ''Karnataka''
               \<and> maxCompReach ch = max 0 (max (orZero (brandDReach ch)) (orZero (brandEReach ch)))
              \<longrightarrow> tb_maxCompReach tb
                    = max 0 (max (orZero (tb_brandDReach tb)) (orZero (tb_brandEReach tb))))
          \<and> (market = lit ''Karnataka''
               \<and> maxCompReach ch = max 0 (max (orZero (brandBReach ch)) (orZero (brandCReach ch)))
              \<longrightarrow> tb_maxCompReach tb
                    = max 0 (max (orZero (tb_brandBReach tb)) (orZero (tb_brandCReach tb))))"
      by blast
  qed
next
  show "serDistricts \<noteq> [] \<and> 0 \<le> urbanPct d \<and> urbanPct d \<le> 1 \<longrightarrow>
        (\<forall>out \<in> set (calculateDistrictChannels serChannels d serDistricts).
          (\<bar>brandAReach out\<bar> \<le> 10 ^ 6 \<and> \<bar>maxCompReach out\<bar> \<le> 10 ^ 6
              \<longrightarrow> gapWithinTolerance (gap out) (brandAReach out) (maxCompReach out))
          \<and> maxCompReach out = max (orZero (brandDReach out)) (orZero (luxReach out))
          \<and> (\<forall>tbs tb. timebands out = Some tbs \<longrightarrow> tb \<in> set tbs \<longrightarrow>
                (\<bar>tb_brandAReach tb\<bar> \<le> 10 ^ 6 \<and> \<bar>tb_maxCompReach tb\<bar> \<le> 10 ^ 6
                   \<longrightarrow> gapWithinTolerance (tb_gap tb) (tb_brandAReach tb) (tb_maxCompReach tb))
                \<and> tb_maxCompReach tb
                    \<ge> max (orZero (tb_brandDReach tb)) (orZero (tb_luxReach tb))))"
    using district_gap by blast
qed

text \<open>
  A parsed band with reach 5 and competitor means 2 and 4; the first sample band of the
  example channel in the market UP and of a channel of Karnataka; and the example channel
  scaled to the example district: the channel has reach 11.05, \<open>maxCompReach\<close> 1.1 and gap
  9.95, which is not the double 11.05 - 1.1, and its first band has reach 4.45,
  \<open>maxCompReach\<close> 5.56 and gap -1.11.
\<close>

theorem gap_invariant_witness:
  "parseTimebandData exampleRows (lit ''UP'') =
       Inr [(lit ''Big'',
         [\<lparr>timeband = lit ''NPT'', tb_brandAReach = 5, tb_brandAShare = 1, tb_brandAOTS = 0,
           tb_brandDReach = Some 2, tb_luxReach = None, tb_brandEReach = Some 4,
           tb_brandBReach = None, tb_brandCReach = None, tb_maxCompReach = 4, tb_gap = 1,
           tb_atcIndex = None, isPrimetime = False, daypartCategory = lit ''non-prime''\<rparr>,
          createEmptyTimeband (lit ''NCPT_EARLY'') (lit ''UP''),
          createEmptyTimeband (lit ''CPT'') (lit ''UP''),
          createEmptyTimeband (lit ''NCPT_LATE'') (lit ''UP'')])]
   \<and> gapWithinTolerance 1 5 4
   \<and> hd (generateSampleTimebandData exampleRegionChannel (lit ''UP''))
       \<in> set (generateSampleTimebandData exampleRegionChannel (lit ''UP''))
   \<and> tb_brandAReach (hd (generateSampleTimebandData exampleRegionChannel (lit ''UP''))) = fl 5.1
   \<and> tb_maxCompReach (hd (generateSampleTimebandData exampleRegionChannel (lit ''UP''))) = 2
   \<and> gapWithinTolerance
         (tb_gap (hd (generateSampleTimebandData exampleRegionChannel (lit ''UP''))))
         (tb_brandAReach (hd (generateSampleTimebandData exampleRegionChannel (lit ''UP''))))
         (tb_maxCompReach (hd (generateSampleTimebandData exampleRegionChannel (lit ''UP''))))
   \<and> maxCompReach exampleRegionChannel
       = max 0 (max (orZero (brandDReach exampleRegionChannel))
                    (orZero (brandEReach exampleRegionChannel)))
   \<and> tb_maxCompReach (hd (generateSampleTimebandData exampleRegionChannel (lit ''UP'')))
       = max 0 (max (orZero (tb_brandDReach
                               (hd (generateSampleTimebandData exampleRegionChannel (lit ''UP'')))))
                    (orZero (tb_brandEReach
                               (hd (generateSampleTimebandData exampleRegionChannel (lit ''UP''))))))
   \<and> maxCompReach exampleKarnatakaChannel
       = max 0 (max (orZero (brandBReach exampleKarnatakaChannel))
                    (orZero (brandCReach exampleKarnatakaChannel)))
   \<and> tb_maxCompReach (hd (generateSampleTimebandData exampleKarnatakaChannel (lit ''Karnataka'')))
       = max 0 (max (orZero (tb_brandBReach
                       (hd (generateSampleTimebandData exampleKarnatakaChannel (lit ''Karnataka'')))))
                    (orZero (tb_brandCReach
                       (hd (generateSampleTimebandData exampleKarnatakaChannel (lit ''Karnataka''))))))
   \<and> [exampleDistrict] \<noteq> [] \<and> 0 \<le> urbanPct exampleDistrict \<and> urbanPct exampleDistrict \<le> 1
   \<and> exampleDistrictChannel
       \<in> set (calculateDistrictChannels [exampleRegionChannel] exampleDistrict [exampleDistrict])
   \<and> brandAReach exampleDistrictChannel = fl 11.05
   \<and> maxCompReach exampleDistrictChannel = fl 1.1
   \<and> gap exampleDistrictChannel = fl 9.95
   \<and> gap exampleDistrictChannel
       \<noteq> subD (brandAReach exampleDistrictChannel) (maxCompReach exampleDistrictChannel)
   \<and> gapWithinTolerance (gap exampleDistrictChannel) (brandAReach exampleDistrictChannel)
       (maxCompReach exampleDistrictChannel)
   \<and> tb_brandAReach exampleDistrictBand = fl 4.45
   \<and> tb_maxCompReach exampleDistrictBand = fl 5.56
   \<and> tb_gap exampleDistrictBand = fl (- 1.11)
   \<and> gapWithinTolerance (tb_gap exampleDistrictBand) (tb_brandAReach exampleDistrictBand)
       (tb_maxCompReach exampleDistrictBand)"
proof -
  let ?out = "calculateDistrictChannels [exampleRegionChannel] exampleDistrict [exampleDistrict]"
  let ?band = "\<lparr>timeband = lit ''NPT'', tb_brandAReach = 5, tb_brandAShare = 1, tb_brandAOTS = 0,
           tb_brandDReach = Some 2, tb_luxReach = None, tb_brandEReach = Some 4,
           tb_brandBReach = None, tb_brandCReach = None, tb_maxCompReach = 4, tb_gap = 1,
           tb_atcIndex = None, isPrimetime = False, daypartCategory = lit ''non-prime''\<rparr>"
  let ?result = "[(lit ''Big'',
         [?band, createEmptyTimeband (lit ''NCPT_EARLY'') (lit ''UP''),
          createEmptyTimeband (lit ''CPT'') (lit ''UP''),
          createEmptyTimeband (lit ''NCPT_LATE'') (lit ''UP'')])]"
  let ?s = "hd (generateSampleTimebandData exampleRegionChannel (lit ''UP''))"
  let ?k = "hd (generateSampleTimebandData exampleKarnatakaChannel (lit ''Karnataka''))"
  have h: "[exampleDistrict] \<noteq> []" "0 \<le> urbanPct exampleDistrict" "urbanPct exampleDistrict \<le> 1"
    by (simp_all add: exampleDistrict_fields fl_eval)
  note inst = gap_invariant [of exampleRows "lit ''UP''" "lit ''NPT''" exampleRegionChannel
      "[exampleDistrict]" exampleDistrict "[exampleRegionChannel]"]
  note instK = gap_invariant [of exampleRows "lit ''Karnataka''" "lit ''NPT''"
      exampleKarnatakaChannel "[exampleDistrict]" exampleDistrict "[exampleRegionChannel]"]
  from inst parseTimebandData_example have
    "\<forall>i < length ?result. \<forall>j < 4.
       \<bar>tb_brandAReach (snd (?result ! i) ! j)\<bar> \<le> 10 ^ 6
         \<and> \<bar>tb_maxCompReach (snd (?result ! i) ! j)\<bar> \<le> 10 ^ 6
       \<longrightarrow> gapWithinTolerance (tb_gap (snd (?result ! i) ! j))
             (tb_brandAReach (snd (?result ! i) ! j)) (tb_maxCompReach (snd (?result ! i) ! j))"
    by blast
  then have p: "gapWithinTolerance 1 5 4"
    by (simp add: All_less_Suc2 numeral_eq_Suc)
  have sm: "?s \<in> set (generateSampleTimebandData exampleRegionChannel (lit ''UP''))"
    by (simp add: generateSampleTimebandData_def TIMEBAND_LABELS_def)
  have sv: "tb_brandAReach ?s = fl 5.1" "tb_maxCompReach ?s = 2"
    using generateSampleTimebandData_example by simp_all
  have sb: "\<bar>tb_brandAReach ?s\<bar> \<le> 10 ^ 6" "\<bar>tb_maxCompReach ?s\<bar> \<le> 10 ^ 6"
    unfolding sv by (simp_all add: fl_eval)
  have sc: "maxCompReach exampleRegionChannel
       = max 0 (max (orZero (brandDReach exampleRegionChannel))
                    (orZero (brandEReach exampleRegionChannel)))"
    by (simp add: exampleRegionChannel_def exampleChannel_def orZero_def)
  have up: "lit ''UP'' \<noteq> lit ''Karnataka''" by simp
  from inst sm sb have sg: "gapWithinTolerance (tb_gap ?s) (tb_brandAReach ?s) (tb_maxCompReach ?s)"
    by blast
  from inst sm sc up have sx: "tb_maxCompReach ?s
       = max 0 (max (orZero (tb_brandDReach ?s)) (orZero (tb_brandEReach ?s)))"
    by blast
  have km: "?k \<in> set (generateSampleTimebandData exampleKarnatakaChannel (lit ''Karnataka''))"
    by (simp add: generateSampleTimebandData_def TIMEBAND_LABELS_def)
  have kc: "maxCompReach exampleKarnatakaChannel
       = max 0 (max (orZero (brandBReach exampleKarnatakaChannel))
                    (orZero (brandCReach exampleKarnatakaChannel)))"
    by (simp add: exampleKarnatakaChannel_def exampleChannel_def orZero_def)
  from instK km kc have kx: "tb_maxCompReach ?k
       = max 0 (max (orZero (tb_brandBReach ?k)) (orZero (tb_brandCReach ?k)))"
    by blast
  from inst h have d: "\<forall>out \<in> set ?out.
          (\<bar>brandAReach out\<bar> \<le> 10 ^ 6 \<and> \<bar>maxCompReach out\<bar> \<le> 10 ^ 6
              \<longrightarrow> gapWithinTolerance (gap out) (brandAReach out) (maxCompReach out))
          \<and> maxCompReach out = max (orZero (brandDReach out)) (orZero (luxReach out))
          \<and> (\<forall>tbs tb. timebands out = Some tbs \<longrightarrow> tb \<in> set tbs \<longrightarrow>
                (\<bar>tb_brandAReach tb\<bar> \<le> 10 ^ 6 \<and> \<bar>tb_maxCompReach tb\<bar> \<le> 10 ^ 6
                   \<longrightarrow> gapWithinTolerance (tb_gap tb) (tb_brandAReach tb) (tb_maxCompReach tb))
                \<and> tb_maxCompReach tb
                    \<ge> max (orZero (tb_brandDReach tb)) (orZero (tb_luxReach tb)))"
    by blast
  have mem: "exampleDistrictChannel \<in> set ?out"
    unfolding exampleDistrictChannel_def by (simp add: calculateDistrictChannels_def Let_def)
  have bc: "\<bar>brandAReach exampleDistrictChannel\<bar> \<le> 10 ^ 6"
    "\<bar>maxCompReach exampleDistrictChannel\<bar> \<le> 10 ^ 6"
    by (simp_all add: exampleDistrictChannel_fields fl_eval)
  from d mem bc have gc: "gapWithinTolerance (gap exampleDistrictChannel)
      (brandAReach exampleDistrictChannel) (maxCompReach exampleDistrictChannel)"
    by blast
  have "\<exists>f. timebands exampleDistrictChannel = Some (map f exampleBands)"
    unfolding exampleDistrictChannel_eq
    by (simp add: scaleChannel_def exampleRegionChannel_fields Let_def)
       (rule exI, rule ballI, rule refl)
  then obtain f where tbs: "timebands exampleDistrictChannel = Some (map f exampleBands)"
    by blast
  have band: "exampleDistrictBand \<in> set (map f exampleBands)"
    unfolding exampleDistrictBand_def tbs using exampleBands_hd(1) by (simp add: hd_map)
  have bb: "\<bar>tb_brandAReach exampleDistrictBand\<bar> \<le> 10 ^ 6"
    "\<bar>tb_maxCompReach exampleDistrictBand\<bar> \<le> 10 ^ 6"
    by (simp_all add: exampleDistrictBand_fields fl_eval)
  from d mem tbs band bb have gb: "gapWithinTolerance (tb_gap exampleDistrictBand)
      (tb_brandAReach exampleDistrictBand) (tb_maxCompReach exampleDistrictBand)"
    by blast
  have ne: "fl 9.95 \<noteq> subD (fl 11.05) (fl 1.1)"
    by (simp add: subD_def fl_eval)
  have one: "parseTimebandData exampleRows (lit ''UP'') = Inr ?result \<and> gapWithinTolerance 1 5 4"
    using parseTimebandData_example p by blast
  have two: "?s \<in> set (generateSampleTimebandData exampleRegionChannel (lit ''UP''))
      \<and> tb_brandAReach ?s = fl 5.1 \<and> tb_maxCompReach ?s = 2
      \<and> gapWithinTolerance (tb_gap ?s) (tb_brandAReach ?s) (tb_maxCompReach ?s)
      \<and> maxCompReach exampleRegionChannel
           = max 0 (max (orZero (brandDReach exampleRegionChannel))
                        (orZero (brandEReach exampleRegionChannel)))
      \<and> tb_maxCompReach ?s = max 0 (max (orZero (tb_brandDReach ?s)) (orZero (tb_brandEReach ?s)))
      \<and> maxCompReach exampleKarnatakaChannel
           = max 0 (max (orZero (brandBReach exampleKarnatakaChannel))
                        (orZero (brandCReach exampleKarnatakaChannel)))
      \<and> tb_maxCompReach ?k = max 0 (max (orZero (tb_brandBReach ?k)) (orZero (tb_brandCReach ?k)))"
    using sm sv sg sc sx kc kx by blast
  have three: "[exampleDistrict] \<noteq> [] \<and> 0 \<le> urbanPct exampleDistrict
      \<and> urbanPct exampleDistrict \<le> 1 \<and> exampleDistrictChannel \<in> set ?out
      \<and> brandAReach exampleDistrictChannel = fl 11.05
      \<and> maxCompReach exampleDistrictChannel = fl 1.1
      \<and> gap exampleDistrictChannel = fl 9.95
      \<and> gap exampleDistrictChannel
           \<noteq> subD (brandAReach exampleDistrictChannel) (maxCompReach exampleDistrictChannel)
      \<and> gapWithinTolerance (gap exampleDistrictChannel) (brandAReach exampleDistrictChannel)
           (maxCompReach exampleDistrictChannel)
      \<and> tb_brandAReach exampleDistrictBand = fl 4.45
      \<and> tb_maxCompReach exampleDistrictBand = fl 5.56
      \<and> tb_gap exampleDistrictBand = fl (- 1.11)
      \<and> gapWithinTolerance (tb_gap exampleDistrictBand) (tb_brandAReach exampleDistrictBand)
           (tb_maxCompReach exampleDistrictBand)"
    using h mem gc gb ne
    by (simp add: exampleDistrictChannel_fields exampleDistrictBand_fields)
  from one two three show ?thesis by blast
qed

end
